theory Spec2Isabelle
  imports Main "HOL-Library.Sublist"
begin

section \<open>Strings, numbers and dates of the platform\<close>

text \<open>
  The chat page (\<^verbatim>\<open>Chat\<close>) and its service module (\<^verbatim>\<open>ai-chat.service\<close>) are
  TypeScript. A JavaScript string is modelled as a \<^typ>\<open>string\<close>; the characters of the
  model are the code units up to U+00FF. \<^verbatim>\<open>String.prototype.trim\<close> removes white space
  and line terminators at both ends; below U+0100 these are the seven characters of
  \<open>is_white\<close>.
\<close>

definition is_white :: "char \<Rightarrow> bool" where
  "is_white c \<longleftrightarrow> c \<in> {CHR 0x09, CHR 0x0A, CHR 0x0B, CHR 0x0C, CHR 0x0D, CHR 0x20, CHR 0xA0}"

definition trim :: "string \<Rightarrow> string" where
  "trim s = rev (dropWhile is_white (rev (dropWhile is_white s)))"

text \<open>
  \<^verbatim>\<open>Number.prototype.toString\<close> on an integer below \<open>10\<^sup>2\<^sup>1\<close> in magnitude prints its
  decimal digits, with a minus sign when negative. \<^verbatim>\<open>Date.now()\<close> is such an integer,
  and so is \<^verbatim>\<open>Date.now() + 1\<close> (both far below \<open>2\<^sup>5\<^sup>3\<close>, so the addition is exact).
\<close>

definition digit_char :: "nat \<Rightarrow> char" where
  "digit_char d = ''0123456789'' ! d"

function digits :: "nat \<Rightarrow> string" where
  "digits n = (if n < 10 then [digit_char n] else digits (n div 10) @ [digit_char (n mod 10)])"
  by pat_completeness auto
termination
  by (relation "measure id") auto

declare digits.simps [simp del]

definition toString :: "int \<Rightarrow> string" where
  "toString i = (if i < 0 then CHR ''-'' # digits (nat (- i)) else digits (nat i))"

text \<open>Reading decimal digits back, as the parsers of array indices and of dates do.\<close>

definition is_digit :: "char \<Rightarrow> bool" where
  "is_digit c \<longleftrightarrow> c \<in> set ''0123456789''"

definition digit_val :: "char \<Rightarrow> nat" where
  "digit_val c = of_char c - 48"

definition nat_of_digits :: "string \<Rightarrow> nat" where
  "nat_of_digits s = foldl (\<lambda>n c. 10 * n + digit_val c) 0 s"

text \<open>
  What a JavaScript \<^verbatim>\<open>throw\<close> or a rejected promise carries: an \<^verbatim>\<open>Error\<close> with its
  message, or a value that is not an instance of \<^verbatim>\<open>Error\<close>. A computation that may
  throw returns \<open>thrown + 'a\<close>; \<open>bind\<close> runs the next step unless the first threw.
\<close>

datatype thrown = Error string | NotAnError

definition bind :: "thrown + 'a \<Rightarrow> ('a \<Rightarrow> thrown + 'b) \<Rightarrow> thrown + 'b" where
  "bind m f = (case m of Inl e \<Rightarrow> Inl e | Inr x \<Rightarrow> f x)"

text \<open>
  A \<^verbatim>\<open>Date\<close> holds a time value or is the invalid date (time value NaN). A valid
  date is written here by its UTC calendar fields, the ones \<^verbatim>\<open>toISOString\<close> prints.
\<close>

datatype Date =
  DateTime (year: int) (month: nat) (day: nat) (hour: nat) (minute: nat) (second: nat) (millisecond: nat)
  | InvalidDate

text \<open>
  The dates a \<^verbatim>\<open>Date\<close> can hold: calendar fields in range, and a time value within
  100,000,000 days of the epoch, that is from \<^verbatim>\<open>-271821-04-20T00:00:00.000Z\<close> to
  \<^verbatim>\<open>+275760-09-13T00:00:00.000Z\<close>.
\<close>

definition isLeapYear :: "int \<Rightarrow> bool" where
  "isLeapYear y \<longleftrightarrow> y mod 4 = 0 \<and> (y mod 100 \<noteq> 0 \<or> y mod 400 = 0)"

definition daysInMonth :: "int \<Rightarrow> nat \<Rightarrow> nat" where
  "daysInMonth y m =
     (if m = 2 then (if isLeapYear y then 29 else 28)
      else if m = 4 \<or> m = 6 \<or> m = 9 \<or> m = 11 then 30 else 31)"

fun before :: "int \<times> nat \<times> nat \<Rightarrow> int \<times> nat \<times> nat \<Rightarrow> bool" where
  "before (y, m, d) (y', m', d') \<longleftrightarrow> y < y' \<or> (y = y' \<and> (m < m' \<or> (m = m' \<and> d < d')))"

fun valid_Date :: "Date \<Rightarrow> bool" where
  "valid_Date InvalidDate = False"
| "valid_Date (DateTime y mo d h mi s ms) \<longleftrightarrow>
     1 \<le> mo \<and> mo \<le> 12 \<and> 1 \<le> d \<and> d \<le> daysInMonth y mo \<and>
     h < 24 \<and> mi < 60 \<and> s < 60 \<and> ms < 1000 \<and>
     \<not> before (y, mo, d) (- 271821, 4, 20) \<and>
     (before (y, mo, d) (275760, 9, 13) \<or> (y, mo, d, h, mi, s, ms) = (275760, 9, 13, 0, 0, 0, 0))"

text \<open>
  \<^verbatim>\<open>Date.prototype.toISOString\<close>: \<^verbatim>\<open>YYYY-MM-DDTHH:mm:ss.sssZ\<close>, the year with a sign
  and six digits when it is outside 0 to 9999; a \<^verbatim>\<open>RangeError\<close> on the invalid date.
\<close>

definition pad :: "nat \<Rightarrow> nat \<Rightarrow> string" where
  "pad w n = replicate (w - length (digits n)) CHR ''0'' @ digits n"

fun toISOString :: "Date \<Rightarrow> thrown + string" where
  "toISOString InvalidDate = Inl (Error ''Invalid time value'')"
| "toISOString (DateTime y mo d h mi s ms) =
     Inr ((if 0 \<le> y \<and> y \<le> 9999 then pad 4 (nat y)
           else (if y < 0 then ''-'' else ''+'') @ pad 6 (nat \<bar>y\<bar>)) @
          ''-'' @ pad 2 mo @ ''-'' @ pad 2 d @ ''T'' @ pad 2 h @ '':'' @ pad 2 mi @ '':'' @ pad 2 s @
          ''.'' @ pad 3 ms @ ''Z'')"

text \<open>
  \<^verbatim>\<open>Date.parse\<close>, which \<^verbatim>\<open>new Date(string)\<close> applies. ECMAScript fixes its result on
  the date-time string format; on any other string the result is left to the engine. The
  model reads the full form of the format (the one \<^verbatim>\<open>toISOString\<close> writes) and is
  \<open>None\<close> on every other string: \<open>None\<close> stands for a result this theory does not
  determine, not for the invalid date.
\<close>

definition field :: "string \<Rightarrow> nat \<Rightarrow> nat \<Rightarrow> nat option" where
  "field s pos w =
     (let t = take w (drop pos s) in
      if length t = w \<and> list_all is_digit t then Some (nat_of_digits t) else None)"

definition parse_rest :: "int \<Rightarrow> string \<Rightarrow> Date option" where
  "parse_rest y s =
     (case (field s 1 2, field s 4 2, field s 7 2, field s 10 2, field s 13 2, field s 16 3) of
        (Some mo, Some d, Some h, Some mi, Some sec, Some ms) \<Rightarrow>
          if length s = 20 \<and> s ! 0 = CHR ''-'' \<and> s ! 3 = CHR ''-'' \<and> s ! 6 = CHR ''T'' \<and>
             s ! 9 = CHR '':'' \<and> s ! 12 = CHR '':'' \<and> s ! 15 = CHR ''.'' \<and> s ! 19 = CHR ''Z'' \<and>
             valid_Date (DateTime y mo d h mi sec ms)
          then Some (DateTime y mo d h mi sec ms) else None
      | _ \<Rightarrow> None)"

definition Date_parse :: "string \<Rightarrow> Date option" where
  "Date_parse s =
     (if s \<noteq> '''' \<and> is_digit (s ! 0) then
        (case field s 0 4 of Some y \<Rightarrow> parse_rest (int y) (drop 4 s) | None \<Rightarrow> None)
      else if s \<noteq> '''' \<and> s ! 0 = CHR ''+'' then
        (case field s 1 6 of Some y \<Rightarrow> parse_rest (int y) (drop 7 s) | None \<Rightarrow> None)
      else if s \<noteq> '''' \<and> s ! 0 = CHR ''-'' then
        (case field s 1 6 of
           Some y \<Rightarrow> if y = 0 then None else parse_rest (- int y) (drop 7 s)
         | None \<Rightarrow> None)
      else None)"


section \<open>The message formats\<close>

text \<open>
  \<^verbatim>\<open>interface ChatMessage { id: string; text: string; isUser: boolean; timestamp: Date }\<close>,
  and the two provider formats. The field \<^verbatim>\<open>id\<close> is written \<open>id_msg\<close>.
\<close>

record ChatMessage =
  id_msg :: string
  "text" :: string
  isUser :: bool
  timestamp :: Date

record OpenAIMessage =
  role :: string
  content :: string

record part =
  "text" :: string

record GeminiMessage =
  role :: string
  parts :: "part list"

definition systemInstruction :: string where
  "systemInstruction = ''You are a helpful AI assistant for students in a Learning Management System. You can help with academic questions, study tips, project guidance, and general educational support. Be friendly, encouraging, and provide practical advice.''"

definition systemMessage :: OpenAIMessage where
  "systemMessage = \<lparr>OpenAIMessage.role = ''system'', content = systemInstruction\<rparr>"

text \<open>\<^verbatim>\<open>convertToOpenAIFormat\<close>: the system message, then \<^verbatim>\<open>messages.map(...)\<close>.\<close>

definition convertToOpenAIFormat :: "ChatMessage list \<Rightarrow> OpenAIMessage list" where
  "convertToOpenAIFormat messages =
     systemMessage #
     map (\<lambda>msg. \<lparr>OpenAIMessage.role = (if isUser msg then ''user'' else ''assistant''),
                  content = ChatMessage.text msg\<rparr>) messages"

text \<open>
  \<^verbatim>\<open>convertToGeminiFormat\<close>: the \<^verbatim>\<open>forEach\<close> loop with its flag
  \<^verbatim>\<open>firstUserMessage\<close> and the array \<^verbatim>\<open>geminiMessages\<close> it pushes onto. The template
  \<^verbatim>\<open>`${systemInstruction}\n\nUser: ${msg.text}`\<close> is \<open>first_user_content\<close>.
\<close>

definition first_user_content :: "string \<Rightarrow> string" where
  "first_user_content t = systemInstruction @ [CHR 0x0A, CHR 0x0A] @ ''User: '' @ t"

fun gemini_forEach :: "ChatMessage list \<Rightarrow> bool \<Rightarrow> GeminiMessage list \<Rightarrow> GeminiMessage list" where
  "gemini_forEach [] firstUserMessage geminiMessages = geminiMessages"
| "gemini_forEach (msg # rest) firstUserMessage geminiMessages =
     (if isUser msg then
        gemini_forEach rest False
          (geminiMessages @
            [\<lparr>GeminiMessage.role = ''user'',
              parts = [\<lparr>part.text = (if firstUserMessage then first_user_content (ChatMessage.text msg)
                                       else ChatMessage.text msg)\<rparr>]\<rparr>])
      else
        gemini_forEach rest firstUserMessage
          (geminiMessages @
            [\<lparr>GeminiMessage.role = ''model'', parts = [\<lparr>part.text = ChatMessage.text msg\<rparr>]\<rparr>]))"

definition convertToGeminiFormat :: "ChatMessage list \<Rightarrow> GeminiMessage list" where
  "convertToGeminiFormat messages = gemini_forEach messages True []"

text \<open>
  What the loop pushes for one message, given the flag at that moment; the loop is then
  read off position by position.
\<close>

definition gemini_of :: "ChatMessage \<Rightarrow> bool \<Rightarrow> GeminiMessage" where
  "gemini_of msg firstUserMessage =
     (if isUser msg then
        \<lparr>GeminiMessage.role = ''user'',
         parts = [\<lparr>part.text = (if firstUserMessage then first_user_content (ChatMessage.text msg)
                                  else ChatMessage.text msg)\<rparr>]\<rparr>
      else \<lparr>GeminiMessage.role = ''model'', parts = [\<lparr>part.text = ChatMessage.text msg\<rparr>]\<rparr>)"


section \<open>JSON values and the reads the service makes on them\<close>

text \<open>
  The value \<^verbatim>\<open>JSON.parse\<close> builds from a text, which is also the value
  \<^verbatim>\<open>JSON.stringify\<close> writes. A number is held by the string \<^verbatim>\<open>Number.prototype.toString\<close>
  prints for it (\<open>JNum ''0.7''\<close>, \<open>JNum ''1000''\<close>); zero, whatever its sign, prints
  \<^verbatim>\<open>0\<close>. An object is the list of its own properties in insertion order. The value
  \<^verbatim>\<open>undefined\<close>, which a read of a missing property yields, is \<open>None\<close>.
\<close>

datatype json =
  JNull | JBool bool | JNum string | JString string | JArray "json list" | JObject "(string \<times> json) list"

text \<open>\<^verbatim>\<open>ToBoolean\<close>, as \<^verbatim>\<open>!x\<close> and \<^verbatim>\<open>x || y\<close> apply it.\<close>

definition truthy :: "json option \<Rightarrow> bool" where
  "truthy v = (case v of
     None \<Rightarrow> False
   | Some JNull \<Rightarrow> False
   | Some (JBool b) \<Rightarrow> b
   | Some (JNum n) \<Rightarrow> n \<noteq> ''0''
   | Some (JString s) \<Rightarrow> s \<noteq> ''''
   | Some (JArray xs) \<Rightarrow> True
   | Some (JObject kvs) \<Rightarrow> True)"

text \<open>
  A property read \<^verbatim>\<open>v.p\<close> or \<^verbatim>\<open>v[0]\<close> (the key \<^verbatim>\<open>"0"\<close>). On \<^verbatim>\<open>undefined\<close> and
  \<^verbatim>\<open>null\<close> it throws a \<^verbatim>\<open>TypeError\<close>; the message is the engine's own (V8's wording
  is used here, and nothing below depends on the wording). Arrays and strings have
  \<^verbatim>\<open>length\<close> and their indices; the methods of the prototypes are not data and are
  read only by \<open>call_trim\<close>.
\<close>

definition array_index :: "string \<Rightarrow> nat option" where
  "array_index p = (if p \<noteq> '''' \<and> list_all is_digit p \<and> digits (nat_of_digits p) = p
                    then Some (nat_of_digits p) else None)"

definition cannot_read :: "string \<Rightarrow> string \<Rightarrow> thrown" where
  "cannot_read what p =
     Error (''Cannot read properties of '' @ what @ '' (reading '' @ [CHR 0x27] @ p @ [CHR 0x27] @ '')'')"

definition Get :: "json option \<Rightarrow> string \<Rightarrow> thrown + json option" where
  "Get v p = (case v of
     None \<Rightarrow> Inl (cannot_read ''undefined'' p)
   | Some JNull \<Rightarrow> Inl (cannot_read ''null'' p)
   | Some (JBool b) \<Rightarrow> Inr None
   | Some (JNum n) \<Rightarrow> Inr None
   | Some (JString s) \<Rightarrow>
       Inr (if p = ''length'' then Some (JNum (digits (length s)))
            else (case array_index p of
                    Some i \<Rightarrow> if i < length s then Some (JString [s ! i]) else None
                  | None \<Rightarrow> None))
   | Some (JArray xs) \<Rightarrow>
       Inr (if p = ''length'' then Some (JNum (digits (length xs)))
            else (case array_index p of
                    Some i \<Rightarrow> if i < length xs then Some (xs ! i) else None
                  | None \<Rightarrow> None))
   | Some (JObject kvs) \<Rightarrow> Inr (map_of kvs p))"

text \<open>
  \<^verbatim>\<open>e.trim()\<close> for an expression \<^verbatim>\<open>e\<close> of value \<open>v\<close>: only a string has the method. On
  \<^verbatim>\<open>undefined\<close> and \<^verbatim>\<open>null\<close> the read of \<^verbatim>\<open>trim\<close> throws; on any other value the read
  gives \<^verbatim>\<open>undefined\<close> and the call throws a \<^verbatim>\<open>TypeError\<close> whose message names the
  expression.
\<close>

definition call_trim :: "string \<Rightarrow> json option \<Rightarrow> thrown + string" where
  "call_trim e v = (case v of
     None \<Rightarrow> Inl (cannot_read ''undefined'' ''trim'')
   | Some JNull \<Rightarrow> Inl (cannot_read ''null'' ''trim'')
   | Some (JString s) \<Rightarrow> Inr (trim s)
   | Some _ \<Rightarrow> Inl (Error (e @ ''.trim is not a function'')))"

text \<open>
  \<^verbatim>\<open>ToString\<close>, as a template literal applies it to an interpolated value. An array
  is joined with commas, \<^verbatim>\<open>null\<close> elements printing as nothing. An object prints as
  \<^verbatim>\<open>[object Object]\<close> through \<^verbatim>\<open>Object.prototype.toString\<close>, unless it has a property
  \<^verbatim>\<open>toString\<close> of its own: a parsed JSON value is never callable, so that neither
  \<^verbatim>\<open>toString\<close> nor \<^verbatim>\<open>valueOf\<close> gives a primitive and the conversion throws a
  \<^verbatim>\<open>TypeError\<close>.
\<close>

fun join :: "string \<Rightarrow> string list \<Rightarrow> string" where
  "join sep [] = ''''"
| "join sep [x] = x"
| "join sep (x # y # ys) = x @ sep @ join sep (y # ys)"

fun sequence :: "(thrown + 'a) list \<Rightarrow> thrown + 'a list" where
  "sequence [] = Inr []"
| "sequence (Inl e # rs) = Inl e"
| "sequence (Inr x # rs) = bind (sequence rs) (\<lambda>xs. Inr (x # xs))"

fun ToString :: "json \<Rightarrow> thrown + string" where
  "ToString JNull = Inr ''null''"
| "ToString (JBool b) = Inr (if b then ''true'' else ''false'')"
| "ToString (JNum n) = Inr n"
| "ToString (JString s) = Inr s"
| "ToString (JArray xs) =
     bind (sequence (map (\<lambda>x. if x = JNull then Inr '''' else ToString x) xs))
          (\<lambda>strs. Inr (join '','' strs))"
| "ToString (JObject kvs) =
     (if map_of kvs ''toString'' \<noteq> None then Inl (Error ''Cannot convert object to primitive value'')
      else Inr ''[object Object]'')"


section \<open>The provider calls\<close>

text \<open>
  What \<^verbatim>\<open>fetch\<close> settles to: a response (its status, its status text and what
  \<^verbatim>\<open>response.json()\<close> settles to, the parsed body or the error of a body that is not
  JSON), or a rejection. \<^verbatim>\<open>response.ok\<close> is a status in 200 to 299.
\<close>

record Response =
  status :: nat
  statusText :: string
  json_body :: "thrown + json"

definition ok :: "Response \<Rightarrow> bool" where
  "ok response \<longleftrightarrow> 200 \<le> status response \<and> status response \<le> 299"

datatype fetch_result = Fulfilled Response | Rejected thrown

text \<open>
  The request \<^verbatim>\<open>fetch\<close> is given. The body is written as the value handed to
  \<^verbatim>\<open>JSON.stringify\<close>.
\<close>

record Request =
  url :: string
  "method" :: string
  headers :: "(string \<times> string) list"
  body :: json

text \<open>
  An \<^verbatim>\<open>async\<close> function runs until it returns, throws, or awaits a \<^verbatim>\<open>fetch\<close>; in
  the last case it has issued the request and goes on from what the request settles to.
  \<open>try_catch\<close> is \<^verbatim>\<open>try { ... } catch (error) { ... }\<close> around such a run.
  \<open>outcome\<close> and \<open>requests\<close> run it against a network \<open>net\<close> that answers each
  request: the value returned or thrown, and the requests issued, in order.
\<close>

datatype 'a async = Return 'a | Throw thrown | Fetch Request "fetch_result \<Rightarrow> 'a async"

definition settle :: "thrown + 'a \<Rightarrow> 'a async" where
  "settle r = (case r of Inl e \<Rightarrow> Throw e | Inr x \<Rightarrow> Return x)"

primrec try_catch :: "'a async \<Rightarrow> (thrown \<Rightarrow> 'a async) \<Rightarrow> 'a async" where
  "try_catch (Return x) handler = Return x"
| "try_catch (Throw e) handler = handler e"
| "try_catch (Fetch request k) handler = Fetch request (\<lambda>res. try_catch (k res) handler)"

primrec outcome :: "(Request \<Rightarrow> fetch_result) \<Rightarrow> 'a async \<Rightarrow> thrown + 'a" where
  "outcome net (Return x) = Inr x"
| "outcome net (Throw e) = Inl e"
| "outcome net (Fetch request k) = outcome net (k (net request))"

primrec requests :: "(Request \<Rightarrow> fetch_result) \<Rightarrow> 'a async \<Rightarrow> Request list" where
  "requests net (Return x) = []"
| "requests net (Throw e) = []"
| "requests net (Fetch request k) = request # requests net (k (net request))"

text \<open>
  The branch \<^verbatim>\<open>if (!response.ok)\<close> of the three provider functions, which differ in
  the provider's name only: \<^verbatim>\<open>errorData\<close> is the parsed body, or \<^verbatim>\<open>{}\<close> when
  \<^verbatim>\<open>response.json()\<close> rejects; the error thrown carries the status, the status text
  and \<^verbatim>\<open>errorData.error?.message || ''\<close>.
\<close>

definition request_failed :: "string \<Rightarrow> Response \<Rightarrow> thrown + string" where
  "request_failed provider response =
     (let errorData = (case json_body response of Inl e \<Rightarrow> JObject [] | Inr d \<Rightarrow> d) in
      bind (Get (Some errorData) ''error'') (\<lambda>error.
      bind (if error = None \<or> error = Some JNull then Inr None else Get error ''message'') (\<lambda>message.
      bind (case message of Some m \<Rightarrow> if truthy message then ToString m else Inr '''' | None \<Rightarrow> Inr '''')
           (\<lambda>shown.
      Inl (Error (provider @ '' API request failed: '' @ digits (status response) @ '' '' @
                  statusText response @ ''. '' @ shown))))))"

text \<open>
  What \<^verbatim>\<open>getGeminiResponse\<close> does with the parsed body \<^verbatim>\<open>data\<close>: the check
  \<^verbatim>\<open>!data.candidates || data.candidates.length === 0 || !data.candidates[0].content.parts[0]\<close>
  and then \<^verbatim>\<open>data.candidates[0].content.parts[0].text.trim()\<close>. The body is whatever
  JSON the provider sent, so every read may throw.
\<close>

definition gemini_text :: "json \<Rightarrow> thrown + string" where
  "gemini_text data =
     bind (Get (Some data) ''candidates'') (\<lambda>candidates.
     if \<not> truthy candidates then Inl (Error ''No response received from Gemini API'') else
     bind (Get candidates ''length'') (\<lambda>len.
     if len = Some (JNum ''0'') then Inl (Error ''No response received from Gemini API'') else
     bind (Get candidates ''0'') (\<lambda>candidate.
     bind (Get candidate ''content'') (\<lambda>content.
     bind (Get content ''parts'') (\<lambda>parts.
     bind (Get parts ''0'') (\<lambda>part.
     if \<not> truthy part then Inl (Error ''No response received from Gemini API'') else
     bind (Get part ''text'') (call_trim ''data.candidates[0].content.parts[0].text'')))))))"

text \<open>
  The same for \<^verbatim>\<open>getGroqResponse\<close> and \<^verbatim>\<open>getOpenAIResponse\<close>:
  \<^verbatim>\<open>!data.choices || data.choices.length === 0\<close>, then
  \<^verbatim>\<open>data.choices[0].message.content.trim()\<close>.
\<close>

definition choices_text :: "string \<Rightarrow> json \<Rightarrow> thrown + string" where
  "choices_text provider data =
     bind (Get (Some data) ''choices'') (\<lambda>choices.
     if \<not> truthy choices then Inl (Error (''No response received from '' @ provider @ '' API'')) else
     bind (Get choices ''length'') (\<lambda>len.
     if len = Some (JNum ''0'') then Inl (Error (''No response received from '' @ provider @ '' API'')) else
     bind (Get choices ''0'') (\<lambda>choice.
     bind (Get choice ''message'') (\<lambda>message.
     bind (Get message ''content'') (call_trim ''data.choices[0].message.content'')))))"

definition gemini_json :: "GeminiMessage \<Rightarrow> json" where
  "gemini_json m =
     JObject [(''role'', JString (GeminiMessage.role m)),
              (''parts'', JArray (map (\<lambda>p. JObject [(''text'', JString (part.text p))]) (parts m)))]"

definition openai_json :: "OpenAIMessage \<Rightarrow> json" where
  "openai_json m = JObject [(''role'', JString (OpenAIMessage.role m)), (''content'', JString (content m))]"

definition getGeminiResponse :: "ChatMessage list \<Rightarrow> string \<Rightarrow> string async" where
  "getGeminiResponse messages apiKey =
     (let endpoint = ''https://generativelanguage.googleapis.com/v1beta/models/gemini-1.5-flash:generateContent?key='' @ apiKey;
          geminiMessages = convertToGeminiFormat messages in
      Fetch \<lparr>url = endpoint, method = ''POST'',
             headers = [(''Content-Type'', ''application/json'')],
             body = JObject [(''contents'', JArray (map gemini_json geminiMessages)),
                             (''generationConfig'',
                              JObject [(''temperature'', JNum ''0.7''), (''maxOutputTokens'', JNum ''1000'')])]\<rparr>
        (\<lambda>res. case res of
           Rejected e \<Rightarrow> Throw e
         | Fulfilled response \<Rightarrow>
             if \<not> ok response then settle (request_failed ''Gemini'' response)
             else (case json_body response of
                     Inl e \<Rightarrow> Throw e
                   | Inr data \<Rightarrow> settle (gemini_text data))))"

definition getGroqResponse :: "ChatMessage list \<Rightarrow> string \<Rightarrow> string async" where
  "getGroqResponse messages apiKey =
     (let endpoint = ''https://api.groq.com/openai/v1/chat/completions'';
          model = ''llama-3.3-70b-versatile'' in
      Fetch \<lparr>url = endpoint, method = ''POST'',
             headers = [(''Content-Type'', ''application/json''), (''Authorization'', ''Bearer '' @ apiKey)],
             body = JObject [(''model'', JString model),
                             (''messages'', JArray (map openai_json (convertToOpenAIFormat messages))),
                             (''max_tokens'', JNum ''1000''),
                             (''temperature'', JNum ''0.7'')]\<rparr>
        (\<lambda>res. case res of
           Rejected e \<Rightarrow> Throw e
         | Fulfilled response \<Rightarrow>
             if \<not> ok response then settle (request_failed ''Groq'' response)
             else (case json_body response of
                     Inl e \<Rightarrow> Throw e
                   | Inr data \<Rightarrow> settle (choices_text ''Groq'' data))))"

definition getOpenAIResponse :: "ChatMessage list \<Rightarrow> string \<Rightarrow> string async" where
  "getOpenAIResponse messages apiKey =
     (let endpoint = ''https://api.openai.com/v1/chat/completions'';
          model = ''gpt-3.5-turbo'' in
      Fetch \<lparr>url = endpoint, method = ''POST'',
             headers = [(''Content-Type'', ''application/json''), (''Authorization'', ''Bearer '' @ apiKey)],
             body = JObject [(''model'', JString model),
                             (''messages'', JArray (map openai_json (convertToOpenAIFormat messages))),
                             (''max_tokens'', JNum ''1000''),
                             (''temperature'', JNum ''0.7'')]\<rparr>
        (\<lambda>res. case res of
           Rejected e \<Rightarrow> Throw e
         | Fulfilled response \<Rightarrow>
             if \<not> ok response then settle (request_failed ''OpenAI'' response)
             else (case json_body response of
                     Inl e \<Rightarrow> Throw e
                   | Inr data \<Rightarrow> settle (choices_text ''OpenAI'' data))))"

text \<open>
  \<^verbatim>\<open>import.meta.env\<close>: each key is a string or \<^verbatim>\<open>undefined\<close>. \<^verbatim>\<open>if (geminiKey)\<close>
  takes a key that is a non-empty string; \<open>if_key\<close> is that test with its two branches.
\<close>

record ImportMetaEnv =
  VITE_GEMINI_API_KEY :: "string option"
  VITE_GROQ_API_KEY :: "string option"
  VITE_OPENAI_API_KEY :: "string option"

definition if_key :: "string option \<Rightarrow> (string \<Rightarrow> 'a) \<Rightarrow> 'a \<Rightarrow> 'a" where
  "if_key key use otherwise =
     (case key of Some k \<Rightarrow> if k \<noteq> '''' then use k else otherwise | None \<Rightarrow> otherwise)"

text \<open>
  \<^verbatim>\<open>getAIResponse\<close>: \<open>provider_call\<close> is the block under \<^verbatim>\<open>try\<close>, \<open>error_text\<close>
  what the \<^verbatim>\<open>catch\<close> block returns for the error it caught.
\<close>

definition provider_call :: "ImportMetaEnv \<Rightarrow> ChatMessage list \<Rightarrow> string async" where
  "provider_call env messages =
     if_key (VITE_GEMINI_API_KEY env) (getGeminiResponse messages)
       (if_key (VITE_GROQ_API_KEY env) (getGroqResponse messages)
          (if_key (VITE_OPENAI_API_KEY env) (getOpenAIResponse messages)
             (Throw (Error ''No API key found. Please set VITE_GEMINI_API_KEY, VITE_GROQ_API_KEY, or VITE_OPENAI_API_KEY in your environment variables.''))))"

definition error_text :: "thrown \<Rightarrow> string" where
  "error_text error =
     (case error of
        Error message \<Rightarrow> ''Error: '' @ message
      | NotAnError \<Rightarrow> ''Error: Could not fetch response. Please try again later.'')"

definition getAIResponse :: "ImportMetaEnv \<Rightarrow> ChatMessage list \<Rightarrow> string async" where
  "getAIResponse env messages = try_catch (provider_call env messages) (\<lambda>error. Return (error_text error))"


section \<open>Session storage\<close>

text \<open>
  A string kept in \<^verbatim>\<open>sessionStorage\<close> is held by what \<^verbatim>\<open>JSON.parse\<close> makes of it: a
  JSON text by the value it denotes, the empty string, or any other string, on which
  \<^verbatim>\<open>JSON.parse\<close> throws a \<^verbatim>\<open>SyntaxError\<close>. \<^verbatim>\<open>JSON.stringify\<close> writes the text of a
  value; that \<^verbatim>\<open>JSON.parse\<close> reads this text back to the same value is ECMAScript's,
  and is built into this representation.
\<close>

datatype stored = JSONText json | EmptyText | OtherText

definition JSON_stringify :: "json \<Rightarrow> stored" where
  "JSON_stringify v = JSONText v"

definition JSON_parse :: "stored \<Rightarrow> thrown + json" where
  "JSON_parse t = (case t of
     JSONText v \<Rightarrow> Inr v
   | EmptyText \<Rightarrow> Inl (Error ''Unexpected end of JSON input'')
   | OtherText \<Rightarrow> Inl (Error ''Unexpected token in JSON''))"

text \<open>
  The storage area: its items, and the two ways its operations fail. When access is
  \<open>denied\<close> (storage disabled for the page) every operation throws; when the area is
  \<open>full\<close> (quota exceeded, or a private window that accepts no data) \<^verbatim>\<open>setItem\<close>
  throws.
\<close>

record Storage =
  items :: "string \<rightharpoonup> stored"
  denied :: bool
  full :: bool

definition getItem :: "Storage \<Rightarrow> string \<Rightarrow> thrown + stored option" where
  "getItem st k = (if denied st then Inl (Error ''The operation is insecure.'') else Inr (items st k))"

definition setItem :: "Storage \<Rightarrow> string \<Rightarrow> stored \<Rightarrow> thrown + Storage" where
  "setItem st k v =
     (if denied st then Inl (Error ''The operation is insecure.'')
      else if full st then Inl (Error ''The quota has been exceeded.'')
      else Inr (st\<lparr>items := (items st)(k \<mapsto> v)\<rparr>))"

definition removeItem :: "Storage \<Rightarrow> string \<Rightarrow> thrown + Storage" where
  "removeItem st k =
     (if denied st then Inl (Error ''The operation is insecure.'')
      else Inr (st\<lparr>items := (items st)(k := None)\<rparr>))"

definition AI_CHAT_STORAGE_KEY :: string where
  "AI_CHAT_STORAGE_KEY = ''ai_chat_messages''"

text \<open>
  What \<^verbatim>\<open>JSON.stringify\<close> writes for a message: its four properties in order, the
  timestamp through \<^verbatim>\<open>Date.prototype.toJSON\<close>, which is \<^verbatim>\<open>null\<close> for the invalid date
  and \<^verbatim>\<open>toISOString()\<close> otherwise.
\<close>

definition toJSON :: "Date \<Rightarrow> json" where
  "toJSON d = (case d of
     InvalidDate \<Rightarrow> JNull
   | DateTime y mo dd h mi s ms \<Rightarrow> (case toISOString d of Inr str \<Rightarrow> JString str | Inl e \<Rightarrow> JNull))"

definition message_json :: "ChatMessage \<Rightarrow> json" where
  "message_json m =
     JObject [(''id'', JString (id_msg m)), (''text'', JString (ChatMessage.text m)),
              (''isUser'', JBool (isUser m)), (''timestamp'', toJSON (timestamp m))]"

text \<open>\<^verbatim>\<open>saveMessagesToStorage\<close>: an error of \<^verbatim>\<open>setItem\<close> is caught and logged.\<close>

definition saveMessagesToStorage :: "ChatMessage list \<Rightarrow> Storage \<Rightarrow> Storage" where
  "saveMessagesToStorage messages st =
     (case setItem st AI_CHAT_STORAGE_KEY (JSON_stringify (JArray (map message_json messages))) of
        Inl error \<Rightarrow> st
      | Inr st' \<Rightarrow> st')"

text \<open>
  \<^verbatim>\<open>new Date(msg.timestamp)\<close> on a parsed value: \<^verbatim>\<open>Date.parse\<close> on a string, the epoch
  on \<^verbatim>\<open>null\<close>. On other values the result is not determined here (\<open>None\<close>).
\<close>

definition new_Date :: "json \<Rightarrow> Date option" where
  "new_Date v = (case v of
     JString s \<Rightarrow> Date_parse s
   | JNull \<Rightarrow> Some (DateTime 1970 1 1 0 0 0 0)
   | _ \<Rightarrow> None)"

text \<open>
  The callback of \<^verbatim>\<open>parsed.map\<close>, \<^verbatim>\<open>msg => ({...msg, timestamp: new Date(msg.timestamp)})\<close>,
  on an element that is an object. TypeScript takes \<^verbatim>\<open>parsed\<close> as \<^verbatim>\<open>any\<close> and the
  result as a \<^verbatim>\<open>ChatMessage\<close> without a check; the record of this theory holds the
  result when the element has the four properties of a message, with an id and a text
  that are strings and an \<^verbatim>\<open>isUser\<close> that is a boolean, and the result is not
  determined here (\<open>None\<close>) on any other element.
\<close>

definition revive :: "json \<Rightarrow> ChatMessage option" where
  "revive msg = (case msg of
     JObject kvs \<Rightarrow>
       if map fst kvs = [''id'', ''text'', ''isUser'', ''timestamp''] then
         (case map snd kvs of
            [JString i, JString t, JBool u, ts] \<Rightarrow>
              (case new_Date ts of
                 Some d \<Rightarrow> Some \<lparr>id_msg = i, text = t, isUser = u, timestamp = d\<rparr>
               | None \<Rightarrow> None)
          | _ \<Rightarrow> None)
       else None
   | _ \<Rightarrow> None)"

text \<open>
  \<^verbatim>\<open>loadMessagesFromStorage\<close>, given the storage and the clock's date (\<^verbatim>\<open>new Date()\<close>
  of the welcome message). Everything under \<^verbatim>\<open>try\<close> that throws ends in the welcome
  message: \<^verbatim>\<open>getItem\<close>, \<^verbatim>\<open>JSON.parse\<close>, \<^verbatim>\<open>parsed.map\<close> on a value that is not an
  array (it has no method \<^verbatim>\<open>map\<close>), and the callback on an element \<^verbatim>\<open>null\<close> (the read
  \<^verbatim>\<open>msg.timestamp\<close> throws). A missing item (\<^verbatim>\<open>null\<close>) and the empty string fail the
  test \<^verbatim>\<open>if (stored)\<close>.
\<close>

definition welcomeMessage :: "Date \<Rightarrow> ChatMessage" where
  "welcomeMessage now =
     \<lparr>id_msg = ''1'',
      text = ''Hello! I'm your AI study assistant. I can help you with academic questions, study tips, project guidance, and more. What would you like to know?'',
      isUser = False, timestamp = now\<rparr>"

definition loadMessagesFromStorage :: "Storage \<Rightarrow> Date \<Rightarrow> ChatMessage list option" where
  "loadMessagesFromStorage st now =
     (case getItem st AI_CHAT_STORAGE_KEY of
        Inl error \<Rightarrow> Some [welcomeMessage now]
      | Inr None \<Rightarrow> Some [welcomeMessage now]
      | Inr (Some EmptyText) \<Rightarrow> Some [welcomeMessage now]
      | Inr (Some stored) \<Rightarrow>
          (case JSON_parse stored of
             Inl error \<Rightarrow> Some [welcomeMessage now]
           | Inr (JArray parsed) \<Rightarrow>
               if JNull \<in> set parsed then Some [welcomeMessage now]
               else those (map revive parsed)
           | Inr _ \<Rightarrow> Some [welcomeMessage now]))"

text \<open>\<^verbatim>\<open>clearChatHistory\<close>: an error of \<^verbatim>\<open>removeItem\<close> is caught and logged.\<close>

definition clearChatHistory :: "Storage \<Rightarrow> Storage" where
  "clearChatHistory st =
     (case removeItem st AI_CHAT_STORAGE_KEY of Inl error \<Rightarrow> st | Inr st' \<Rightarrow> st')"


section \<open>The chat page\<close>

text \<open>
  The state of the component \<^verbatim>\<open>Chat\<close>: its three \<^verbatim>\<open>useState\<close> cells, the calls of
  \<^verbatim>\<open>handleSendMessage\<close> that are suspended at \<^verbatim>\<open>await getAIResponse(updatedMessages)\<close>
  (each the promise it awaits), and the session storage of the page. An event handler
  reads the state of the latest render: React renders again after each event it handles,
  before the next one is delivered.
\<close>

record Chat_state =
  messages :: "ChatMessage list"
  inputValue :: string
  isLoading :: bool
  pending :: "string async list"
  sessionStorage :: Storage

text \<open>
  The effect \<^verbatim>\<open>useEffect(() => { if (messages.length > 0) saveMessagesToStorage(messages) }, [messages])\<close>,
  run after a render that changed \<^verbatim>\<open>messages\<close>.
\<close>

definition save_effect :: "Chat_state \<Rightarrow> Chat_state" where
  "save_effect s =
     (if length (messages s) > 0
      then s\<lparr>sessionStorage := saveMessagesToStorage (messages s) (sessionStorage s)\<rparr>
      else s)"

text \<open>
  The mount: \<^verbatim>\<open>useState\<close> starts from the empty list, the empty input and
  \<^verbatim>\<open>isLoading = false\<close>; the first effect loads the messages and sets them. There is no
  mounted state (\<open>None\<close>) where the loaded value is not determined.
\<close>

definition mount :: "Storage \<Rightarrow> Date \<Rightarrow> Chat_state option" where
  "mount st now =
     (case loadMessagesFromStorage st now of
        None \<Rightarrow> None
      | Some loadedMessages \<Rightarrow>
          Some (save_effect \<lparr>messages = loadedMessages, inputValue = '''', isLoading = False,
                             pending = [], sessionStorage = st\<rparr>))"

text \<open>
  \<^verbatim>\<open>handleSendMessage\<close> up to its \<^verbatim>\<open>await\<close>, given \<^verbatim>\<open>Date.now()\<close> and
  \<^verbatim>\<open>new Date()\<close>. The call \<^verbatim>\<open>getAIResponse(updatedMessages)\<close> runs to its own
  \<^verbatim>\<open>await fetch(...)\<close> within the same event, so the request is issued here.
\<close>

definition handleSendMessage :: "ImportMetaEnv \<Rightarrow> int \<Rightarrow> Date \<Rightarrow> Chat_state \<Rightarrow> Chat_state" where
  "handleSendMessage env now date s =
     (if trim (inputValue s) = '''' \<or> isLoading s then s
      else
        let messageText = trim (inputValue s);
            userMessage = \<lparr>id_msg = toString now, text = messageText, isUser = True, timestamp = date\<rparr>;
            updatedMessages = messages s @ [userMessage]
        in save_effect
             (s\<lparr>inputValue := '''', isLoading := True,
                messages := messages s @ [userMessage],
                pending := pending s @ [getAIResponse env updatedMessages]\<rparr>))"

text \<open>
  The rest of \<^verbatim>\<open>handleSendMessage\<close>, run when the request of the suspended call
  \<open>i\<close> settles to \<open>res\<close> (a call that awaits no request goes on whatever \<open>res\<close> is):
  the \<^verbatim>\<open>try\<close> branch on a resolved promise, the \<^verbatim>\<open>catch\<close> branch on a rejected one,
  and \<^verbatim>\<open>finally\<close>.
\<close>

definition resume :: "'a async \<Rightarrow> fetch_result \<Rightarrow> 'a async" where
  "resume t res = (case t of Fetch request k \<Rightarrow> k res | _ \<Rightarrow> t)"

definition handleSendMessage_resumed ::
    "nat \<Rightarrow> fetch_result \<Rightarrow> int \<Rightarrow> Date \<Rightarrow> Chat_state \<Rightarrow> Chat_state" where
  "handleSendMessage_resumed i res now date s =
     (if i < length (pending s) then
        (case resume (pending s ! i) res of
           Return aiResponseText \<Rightarrow>
             save_effect
               (s\<lparr>messages := messages s @
                     [\<lparr>id_msg = toString (now + 1), text = aiResponseText, isUser = False,
                       timestamp = date\<rparr>],
                  isLoading := False,
                  pending := take i (pending s) @ drop (Suc i) (pending s)\<rparr>)
         | Throw error \<Rightarrow>
             save_effect
               (s\<lparr>messages := messages s @
                     [\<lparr>id_msg = toString (now + 1),
                       text = ''Error: Could not fetch response. Please try again later.'',
                       isUser = False, timestamp = date\<rparr>],
                  isLoading := False,
                  pending := take i (pending s) @ drop (Suc i) (pending s)\<rparr>)
         | Fetch request k \<Rightarrow> s\<lparr>pending := (pending s)[i := Fetch request k]\<rparr>)
      else s)"

text \<open>\<^verbatim>\<open>handleClearChat\<close>; the effect saves nothing, the list being empty.\<close>

definition handleClearChat :: "Chat_state \<Rightarrow> Chat_state" where
  "handleClearChat s = save_effect (s\<lparr>sessionStorage := clearChatHistory (sessionStorage s), messages := []\<rparr>)"

text \<open>
  \<^verbatim>\<open>onChange\<close> of the text field, which is \<^verbatim>\<open>disabled={isLoading}\<close>: a disabled field
  takes no input.
\<close>

definition onChange :: "string \<Rightarrow> Chat_state \<Rightarrow> Chat_state" where
  "onChange v s = (if isLoading s then s else s\<lparr>inputValue := v\<rparr>)"

text \<open>
  What happens to a mounted page: the user types, submits (the button or the Enter key,
  both call \<^verbatim>\<open>handleSendMessage\<close>) or clears the chat, and the request of a suspended
  call settles. Each event carries what the handler reads from the clock.
\<close>

datatype event =
  Change string
  | Submit int Date
  | Settled nat fetch_result int Date
  | ClearChat

fun step :: "ImportMetaEnv \<Rightarrow> Chat_state \<Rightarrow> event \<Rightarrow> Chat_state" where
  "step env s (Change v) = onChange v s"
| "step env s (Submit now date) = handleSendMessage env now date s"
| "step env s (Settled i res now date) = handleSendMessage_resumed i res now date s"
| "step env s ClearChat = handleClearChat s"

definition run :: "ImportMetaEnv \<Rightarrow> Chat_state \<Rightarrow> event list \<Rightarrow> Chat_state" where
  "run env s evs = foldl (step env) s evs"

text \<open>The provider requests that are issued and not yet settled.\<close>

definition in_flight :: "Chat_state \<Rightarrow> Request list" where
  "in_flight s = concat (map (\<lambda>t. case t of Fetch request k \<Rightarrow> [request] | _ \<Rightarrow> []) (pending s))"

text \<open>
  The shape of a reachable state: either nothing is suspended and \<^verbatim>\<open>isLoading\<close> is
  false, or \<^verbatim>\<open>isLoading\<close> is true and exactly one call of \<^verbatim>\<open>handleSendMessage\<close> is
  suspended, at its \<^verbatim>\<open>await getAIResponse(...)\<close>.
\<close>

definition one_send :: "ImportMetaEnv \<Rightarrow> Chat_state \<Rightarrow> bool" where
  "one_send env s \<longleftrightarrow>
     (\<not> isLoading s \<and> pending s = []) \<or>
     (isLoading s \<and> (\<exists>ms. pending s = [getAIResponse env ms]))"


section \<open>Format translation\<close>

lemma gemini_forEach_append:
  "gemini_forEach ms f acc = acc @ gemini_forEach ms f []"
proof (induction ms arbitrary: f acc)
  case Nil
  show ?case by simp
next
  case (Cons m ms)
  show ?case
    using Cons [of _ "acc @ [x]" for x] Cons [of _ "[x]" for x]
    by (cases "isUser m") simp_all
qed

lemma gemini_forEach_Cons:
  "gemini_forEach (m # ms) f [] = gemini_of m f # gemini_forEach ms (f \<and> \<not> isUser m) []"
  using gemini_forEach_append [of ms _ "[x]" for x]
  by (simp add: gemini_of_def)

lemma gemini_forEach_length:
  "length (gemini_forEach ms f []) = length ms"
  by (induction ms arbitrary: f) (simp_all add: gemini_forEach_Cons del: gemini_forEach.simps(2))

lemma gemini_forEach_nth:
  "i < length ms \<Longrightarrow>
   gemini_forEach ms f [] ! i = gemini_of (ms ! i) (f \<and> (\<forall>j<i. \<not> isUser (ms ! j)))"
proof (induction ms arbitrary: f i)
  case Nil
  then show ?case by simp
next
  case (Cons m ms)
  show ?case
  proof (cases i)
    case 0
    then show ?thesis by (simp only: gemini_forEach_Cons) simp
  next
    case (Suc k)
    with Cons.prems have k: "k < length ms" by simp
    have all: "(\<forall>j<Suc k. \<not> isUser ((m # ms) ! j)) \<longleftrightarrow> \<not> isUser m \<and> (\<forall>j<k. \<not> isUser (ms ! j))"
      by (auto simp: less_Suc_eq_0_disj)
    show ?thesis
      unfolding Suc gemini_forEach_Cons nth_Cons_Suc Cons.IH [OF k] all
      by (simp add: conj_commute conj_left_commute)
  qed
qed

text \<open>
  C4. For a list of \<open>n\<close> messages \<^verbatim>\<open>convertToOpenAIFormat\<close> returns \<open>n + 1\<close> messages:
  first the fixed system message, then one message per input message in the input's
  order, with role \<^verbatim>\<open>user\<close> exactly when \<^verbatim>\<open>isUser\<close> holds and \<^verbatim>\<open>assistant\<close>
  otherwise, and with the text as content, unchanged.
\<close>

theorem convertToOpenAIFormat_translation:
  "length (convertToOpenAIFormat ms) = length ms + 1 \<and>
   convertToOpenAIFormat ms ! 0 =
     \<lparr>OpenAIMessage.role = ''system'', content = systemInstruction\<rparr> \<and>
   (\<forall>i<length ms.
      OpenAIMessage.role (convertToOpenAIFormat ms ! (i + 1)) =
        (if isUser (ms ! i) then ''user'' else ''assistant'') \<and>
      (OpenAIMessage.role (convertToOpenAIFormat ms ! (i + 1)) = ''user'' \<longleftrightarrow> isUser (ms ! i)) \<and>
      content (convertToOpenAIFormat ms ! (i + 1)) = ChatMessage.text (ms ! i))"
  by (simp add: convertToOpenAIFormat_def systemMessage_def)

theorem convertToOpenAIFormat_translation_witness:
  "(1::nat) < length
     [\<lparr>id_msg = ''1'', text = ''Hello!'', isUser = False, timestamp = DateTime 2024 5 1 9 30 0 0\<rparr>,
      \<lparr>id_msg = ''1714555800000'', text = ''What is a monad?'', isUser = True,
       timestamp = DateTime 2024 5 1 9 30 0 0\<rparr>] \<and>
   convertToOpenAIFormat
     [\<lparr>id_msg = ''1'', text = ''Hello!'', isUser = False, timestamp = DateTime 2024 5 1 9 30 0 0\<rparr>,
      \<lparr>id_msg = ''1714555800000'', text = ''What is a monad?'', isUser = True,
       timestamp = DateTime 2024 5 1 9 30 0 0\<rparr>] ! (1 + 1) =
   \<lparr>OpenAIMessage.role = ''user'', content = ''What is a monad?''\<rparr>"
  using convertToOpenAIFormat_translation
    [of "[\<lparr>id_msg = ''1'', text = ''Hello!'', isUser = False, timestamp = DateTime 2024 5 1 9 30 0 0\<rparr>,
      \<lparr>id_msg = ''1714555800000'', text = ''What is a monad?'', isUser = True,
       timestamp = DateTime 2024 5 1 9 30 0 0\<rparr>]", THEN conjunct2, THEN conjunct2, THEN spec, of 1]
  by simp

text \<open>
  C5. For a list of \<open>n\<close> messages \<^verbatim>\<open>convertToGeminiFormat\<close> returns \<open>n\<close> messages in
  the input's order. A message that is not the user's becomes a \<^verbatim>\<open>model\<close> message
  with the same text. A user's message becomes a \<^verbatim>\<open>user\<close> message; the first user
  message (the one with no user message before it) carries the system instruction in
  front of its text, every later one carries its text unchanged.
\<close>

theorem convertToGeminiFormat_translation:
  "length (convertToGeminiFormat ms) = length ms \<and>
   (\<forall>i<length ms.
      convertToGeminiFormat ms ! i =
        (if isUser (ms ! i) then
           \<lparr>GeminiMessage.role = ''user'',
            parts = [\<lparr>part.text =
              (if \<forall>j<i. \<not> isUser (ms ! j)
               then systemInstruction @ [CHR 0x0A, CHR 0x0A] @ ''User: '' @ ChatMessage.text (ms ! i)
               else ChatMessage.text (ms ! i))\<rparr>]\<rparr>
         else \<lparr>GeminiMessage.role = ''model'', parts = [\<lparr>part.text = ChatMessage.text (ms ! i)\<rparr>]\<rparr>))"
  by (auto simp: convertToGeminiFormat_def gemini_forEach_length gemini_forEach_nth gemini_of_def
      first_user_content_def)

theorem convertToGeminiFormat_translation_witness:
  "(2::nat) < length
     [\<lparr>id_msg = ''1'', text = ''Hello!'', isUser = False, timestamp = DateTime 2024 5 1 9 30 0 0\<rparr>,
      \<lparr>id_msg = ''1714555800000'', text = ''Hi'', isUser = True,
       timestamp = DateTime 2024 5 1 9 30 0 0\<rparr>,
      \<lparr>id_msg = ''1714555860000'', text = ''More'', isUser = True,
       timestamp = DateTime 2024 5 1 9 31 0 0\<rparr>] \<and>
   convertToGeminiFormat
     [\<lparr>id_msg = ''1'', text = ''Hello!'', isUser = False, timestamp = DateTime 2024 5 1 9 30 0 0\<rparr>,
      \<lparr>id_msg = ''1714555800000'', text = ''Hi'', isUser = True,
       timestamp = DateTime 2024 5 1 9 30 0 0\<rparr>,
      \<lparr>id_msg = ''1714555860000'', text = ''More'', isUser = True,
       timestamp = DateTime 2024 5 1 9 31 0 0\<rparr>] ! 2 =
   \<lparr>GeminiMessage.role = ''user'', parts = [\<lparr>part.text = ''More''\<rparr>]\<rparr>"
  using convertToGeminiFormat_translation
    [of "[\<lparr>id_msg = ''1'', text = ''Hello!'', isUser = False, timestamp = DateTime 2024 5 1 9 30 0 0\<rparr>,
      \<lparr>id_msg = ''1714555800000'', text = ''Hi'', isUser = True,
       timestamp = DateTime 2024 5 1 9 30 0 0\<rparr>,
      \<lparr>id_msg = ''1714555860000'', text = ''More'', isUser = True,
       timestamp = DateTime 2024 5 1 9 31 0 0\<rparr>]", THEN conjunct2, THEN spec, of 2]
  by (simp add: less_Suc_eq numeral_2_eq_2)


section \<open>Provider selection and the errors of a call\<close>

lemma requests_settle [simp]: "requests net (settle r) = []"
  by (cases r) (simp_all add: settle_def)

lemma outcome_settle [simp]: "outcome net (settle r) = r"
  by (cases r) (simp_all add: settle_def)

lemma requests_try_catch_Return:
  "requests net (try_catch t (\<lambda>e. Return (g e))) = requests net t"
  by (induction t) simp_all

lemma outcome_try_catch_Return:
  "outcome net (try_catch t (\<lambda>e. Return (g e))) =
     (case outcome net t of Inl e \<Rightarrow> Inr (g e) | Inr x \<Rightarrow> Inr x)"
  by (induction t) simp_all

lemma requests_getGeminiResponse:
  "\<exists>r. requests net (getGeminiResponse ms k) = [r] \<and>
     url r = ''https://generativelanguage.googleapis.com/v1beta/models/gemini-1.5-flash:generateContent?key='' @ k"
  by (simp add: getGeminiResponse_def Let_def split: fetch_result.split sum.split)

lemma requests_getGroqResponse:
  "\<exists>r. requests net (getGroqResponse ms k) = [r] \<and>
     url r = ''https://api.groq.com/openai/v1/chat/completions'' \<and>
     map_of (headers r) ''Authorization'' = Some (''Bearer '' @ k)"
  by (simp add: getGroqResponse_def Let_def split: fetch_result.split sum.split)

lemma requests_getOpenAIResponse:
  "\<exists>r. requests net (getOpenAIResponse ms k) = [r] \<and>
     url r = ''https://api.openai.com/v1/chat/completions'' \<and>
     map_of (headers r) ''Authorization'' = Some (''Bearer '' @ k)"
  by (simp add: getOpenAIResponse_def Let_def split: fetch_result.split sum.split)

text \<open>
  C1. Whatever the messages and whatever the network answers, \<^verbatim>\<open>getAIResponse\<close> issues
  exactly one request, to the provider chosen by the keys: Gemini when its key is set (a
  non-empty string, the test the code makes), whatever the other two keys are; else Groq
  when its key is set; else OpenAI when its key is set. When none of the three is set it
  issues no request and resolves to the explanatory string.
\<close>

theorem getAIResponse_provider_selection:
  "(\<forall>k. VITE_GEMINI_API_KEY env = Some k \<and> k \<noteq> '''' \<longrightarrow>
      (\<exists>r. requests net (getAIResponse env ms) = [r] \<and>
           url r = ''https://generativelanguage.googleapis.com/v1beta/models/gemini-1.5-flash:generateContent?key='' @ k)) \<and>
   (\<forall>k. VITE_GEMINI_API_KEY env \<in> {None, Some ''''} \<and> VITE_GROQ_API_KEY env = Some k \<and> k \<noteq> '''' \<longrightarrow>
      (\<exists>r. requests net (getAIResponse env ms) = [r] \<and>
           url r = ''https://api.groq.com/openai/v1/chat/completions'' \<and>
           map_of (headers r) ''Authorization'' = Some (''Bearer '' @ k))) \<and>
   (\<forall>k. VITE_GEMINI_API_KEY env \<in> {None, Some ''''} \<and> VITE_GROQ_API_KEY env \<in> {None, Some ''''} \<and>
        VITE_OPENAI_API_KEY env = Some k \<and> k \<noteq> '''' \<longrightarrow>
      (\<exists>r. requests net (getAIResponse env ms) = [r] \<and>
           url r = ''https://api.openai.com/v1/chat/completions'' \<and>
           map_of (headers r) ''Authorization'' = Some (''Bearer '' @ k))) \<and>
   (VITE_GEMINI_API_KEY env \<in> {None, Some ''''} \<and> VITE_GROQ_API_KEY env \<in> {None, Some ''''} \<and>
    VITE_OPENAI_API_KEY env \<in> {None, Some ''''} \<longrightarrow>
      requests net (getAIResponse env ms) = [] \<and>
      outcome net (getAIResponse env ms) =
        Inr ''Error: No API key found. Please set VITE_GEMINI_API_KEY, VITE_GROQ_API_KEY, or VITE_OPENAI_API_KEY in your environment variables.'')"
  unfolding getAIResponse_def requests_try_catch_Return outcome_try_catch_Return
  using requests_getGeminiResponse [of net ms] requests_getGroqResponse [of net ms]
    requests_getOpenAIResponse [of net ms]
  by (auto simp: provider_call_def if_key_def error_text_def)


theorem getAIResponse_provider_selection_witness:
  "(\<exists>r. requests (\<lambda>request. Rejected (Error ''Failed to fetch''))
          (getAIResponse \<lparr>VITE_GEMINI_API_KEY = Some ''g-key'', VITE_GROQ_API_KEY = Some ''q-key'',
                          VITE_OPENAI_API_KEY = Some ''o-key''\<rparr> []) = [r] \<and>
        url r = ''https://generativelanguage.googleapis.com/v1beta/models/gemini-1.5-flash:generateContent?key='' @ ''g-key'') \<and>
   (\<exists>r. requests (\<lambda>request. Rejected (Error ''Failed to fetch''))
          (getAIResponse \<lparr>VITE_GEMINI_API_KEY = None, VITE_GROQ_API_KEY = Some ''q-key'',
                          VITE_OPENAI_API_KEY = Some ''o-key''\<rparr> []) = [r] \<and>
        url r = ''https://api.groq.com/openai/v1/chat/completions'' \<and>
        map_of (headers r) ''Authorization'' = Some (''Bearer '' @ ''q-key'')) \<and>
   (\<exists>r. requests (\<lambda>request. Rejected (Error ''Failed to fetch''))
          (getAIResponse \<lparr>VITE_GEMINI_API_KEY = Some '''', VITE_GROQ_API_KEY = None,
                          VITE_OPENAI_API_KEY = Some ''o-key''\<rparr> []) = [r] \<and>
        url r = ''https://api.openai.com/v1/chat/completions'' \<and>
        map_of (headers r) ''Authorization'' = Some (''Bearer '' @ ''o-key'')) \<and>
   requests (\<lambda>request. Rejected (Error ''Failed to fetch''))
     (getAIResponse \<lparr>VITE_GEMINI_API_KEY = None, VITE_GROQ_API_KEY = Some '''',
                     VITE_OPENAI_API_KEY = None\<rparr> []) = [] \<and>
   outcome (\<lambda>request. Rejected (Error ''Failed to fetch''))
     (getAIResponse \<lparr>VITE_GEMINI_API_KEY = None, VITE_GROQ_API_KEY = Some '''',
                     VITE_OPENAI_API_KEY = None\<rparr> []) =
     Inr ''Error: No API key found. Please set VITE_GEMINI_API_KEY, VITE_GROQ_API_KEY, or VITE_OPENAI_API_KEY in your environment variables.''"
  using
    getAIResponse_provider_selection
      [of "\<lparr>VITE_GEMINI_API_KEY = Some ''g-key'', VITE_GROQ_API_KEY = Some ''q-key'',
             VITE_OPENAI_API_KEY = Some ''o-key''\<rparr>" "\<lambda>request. Rejected (Error ''Failed to fetch'')" "[]"]
    getAIResponse_provider_selection
      [of "\<lparr>VITE_GEMINI_API_KEY = None, VITE_GROQ_API_KEY = Some ''q-key'',
             VITE_OPENAI_API_KEY = Some ''o-key''\<rparr>" "\<lambda>request. Rejected (Error ''Failed to fetch'')" "[]"]
    getAIResponse_provider_selection
      [of "\<lparr>VITE_GEMINI_API_KEY = Some '''', VITE_GROQ_API_KEY = None,
             VITE_OPENAI_API_KEY = Some ''o-key''\<rparr>" "\<lambda>request. Rejected (Error ''Failed to fetch'')" "[]"]
    getAIResponse_provider_selection
      [of "\<lparr>VITE_GEMINI_API_KEY = None, VITE_GROQ_API_KEY = Some '''',
             VITE_OPENAI_API_KEY = None\<rparr>" "\<lambda>request. Rejected (Error ''Failed to fetch'')" "[]"]
  by simp

lemma resume_getAIResponse:
  "\<exists>text. resume (getAIResponse env ms) res = Return text"
  by (cases res)
     (auto simp: resume_def getAIResponse_def provider_call_def if_key_def getGeminiResponse_def
        getGroqResponse_def getOpenAIResponse_def Let_def settle_def
        split: option.split sum.split)

text \<open>
  C9. \<^verbatim>\<open>getAIResponse\<close> never rejects. Whatever the keys, the messages and the
  network's answer, it resolves to a string; when the call under its \<^verbatim>\<open>try\<close> throws,
  the string is \<^verbatim>\<open>Error: \<close> followed by the error's message, or the fixed fallback
  string when what was thrown is not an \<^verbatim>\<open>Error\<close>; when the call returns, the string
  is what it returned. So the promise \<^verbatim>\<open>handleSendMessage\<close> awaits is resolved once
  the request has settled, and the \<^verbatim>\<open>catch\<close> branch of \<^verbatim>\<open>handleSendMessage\<close>, taken
  on a rejected promise, is not taken.
\<close>

theorem getAIResponse_never_rejects:
  "(\<exists>text. outcome net (getAIResponse env ms) = Inr text \<and>
      (\<forall>message. outcome net (provider_call env ms) = Inl (Error message) \<longrightarrow>
         text = ''Error: '' @ message) \<and>
      (outcome net (provider_call env ms) = Inl NotAnError \<longrightarrow>
         text = ''Error: Could not fetch response. Please try again later.'') \<and>
      (\<forall>answer. outcome net (provider_call env ms) = Inr answer \<longrightarrow> text = answer)) \<and>
   (\<exists>text. resume (getAIResponse env ms) res = Return text)"
proof -
  have "outcome net (getAIResponse env ms) =
      (case outcome net (provider_call env ms) of Inl e \<Rightarrow> Inr (error_text e) | Inr x \<Rightarrow> Inr x)"
    unfolding getAIResponse_def by (rule outcome_try_catch_Return)
  then have "\<exists>text. outcome net (getAIResponse env ms) = Inr text \<and>
      (\<forall>message. outcome net (provider_call env ms) = Inl (Error message) \<longrightarrow>
         text = ''Error: '' @ message) \<and>
      (outcome net (provider_call env ms) = Inl NotAnError \<longrightarrow>
         text = ''Error: Could not fetch response. Please try again later.'') \<and>
      (\<forall>answer. outcome net (provider_call env ms) = Inr answer \<longrightarrow> text = answer)"
    by (cases "outcome net (provider_call env ms)") (auto simp: error_text_def)
  with resume_getAIResponse [of env ms res] show ?thesis by blast
qed

lemma outcome_groq_rejected:
  "outcome (\<lambda>request. Rejected e)
     (provider_call \<lparr>VITE_GEMINI_API_KEY = None, VITE_GROQ_API_KEY = Some ''q-key'',
                     VITE_OPENAI_API_KEY = None\<rparr> ms) = Inl e"
  by (simp add: provider_call_def if_key_def getGroqResponse_def)

theorem getAIResponse_never_rejects_witness:
  "outcome (\<lambda>request. Rejected (Error ''Failed to fetch''))
     (provider_call \<lparr>VITE_GEMINI_API_KEY = None, VITE_GROQ_API_KEY = Some ''q-key'',
                     VITE_OPENAI_API_KEY = None\<rparr> []) = Inl (Error ''Failed to fetch'') \<and>
   outcome (\<lambda>request. Rejected (Error ''Failed to fetch''))
     (getAIResponse \<lparr>VITE_GEMINI_API_KEY = None, VITE_GROQ_API_KEY = Some ''q-key'',
                     VITE_OPENAI_API_KEY = None\<rparr> []) = Inr ''Error: Failed to fetch'' \<and>
   outcome (\<lambda>request. Rejected NotAnError)
     (provider_call \<lparr>VITE_GEMINI_API_KEY = None, VITE_GROQ_API_KEY = Some ''q-key'',
                     VITE_OPENAI_API_KEY = None\<rparr> []) = Inl NotAnError \<and>
   outcome (\<lambda>request. Rejected NotAnError)
     (getAIResponse \<lparr>VITE_GEMINI_API_KEY = None, VITE_GROQ_API_KEY = Some ''q-key'',
                     VITE_OPENAI_API_KEY = None\<rparr> []) =
     Inr ''Error: Could not fetch response. Please try again later.''"
  using
    getAIResponse_never_rejects
      [of "\<lambda>request. Rejected (Error ''Failed to fetch'')"
          "\<lparr>VITE_GEMINI_API_KEY = None, VITE_GROQ_API_KEY = Some ''q-key'', VITE_OPENAI_API_KEY = None\<rparr>"
          "[]"]
    getAIResponse_never_rejects
      [of "\<lambda>request. Rejected NotAnError"
          "\<lparr>VITE_GEMINI_API_KEY = None, VITE_GROQ_API_KEY = Some ''q-key'', VITE_OPENAI_API_KEY = None\<rparr>"
          "[]"]
  by (auto simp: outcome_groq_rejected)


section \<open>Dates through their ISO strings\<close>

lemma digit_char_props:
  "d < 10 \<Longrightarrow> is_digit (digit_char d) \<and> digit_val (digit_char d) = d \<and> digit_char d \<noteq> CHR ''-''"
proof -
  assume "d < 10"
  then have "d \<in> {0, 1, 2, 3, 4, 5, 6, 7, 8, 9}" by auto
  then show ?thesis
    by (auto simp: digit_char_def is_digit_def digit_val_def)
qed

lemma nat_of_digits_snoc: "nat_of_digits (xs @ [c]) = 10 * nat_of_digits xs + digit_val c"
  by (simp add: nat_of_digits_def)

lemma digits_all_digit: "list_all is_digit (digits n)"
  by (induction n rule: digits.induct) (subst digits.simps, simp add: digit_char_props)

lemma nat_of_digits_digits: "nat_of_digits (digits n) = n"
proof (induction n rule: digits.induct)
  case (1 n)
  show ?case
  proof (cases "n < 10")
    case True
    then show ?thesis
      by (subst digits.simps) (simp add: nat_of_digits_def digit_char_props)
  next
    case False
    with 1 show ?thesis
      by (subst digits.simps) (simp add: nat_of_digits_snoc digit_char_props)
  qed
qed

lemma digits_nonempty: "digits n \<noteq> []"
  by (subst digits.simps) simp

lemma length_digits: "n < 10 ^ w \<Longrightarrow> 0 < w \<Longrightarrow> length (digits n) \<le> w"
proof (induction n arbitrary: w rule: digits.induct)
  case (1 n)
  show ?case
  proof (cases "n < 10")
    case True
    with 1 show ?thesis by (subst digits.simps) simp
  next
    case False
    from False 1(2) 1(3) have "1 < w" by (cases "w = 1") auto
    then obtain v where v: "w = Suc v" "0 < v" by (cases w) auto
    with 1(2) have "n div 10 < 10 ^ v" by (simp add: less_mult_imp_div_less mult.commute)
    with 1(1) [OF False this] v False show ?thesis
      by (subst digits.simps) simp
  qed
qed

lemma nat_of_digits_zeros: "nat_of_digits (replicate k CHR ''0'' @ xs) = nat_of_digits xs"
  by (induction k) (simp_all add: nat_of_digits_def digit_val_def)

lemma zeros_all_digit: "list_all is_digit (replicate k CHR ''0'')"
  by (induction k) (simp_all add: is_digit_def)

lemma pad_props:
  assumes "n < 10 ^ w" "0 < w"
  shows "length (pad w n) = w" "list_all is_digit (pad w n)" "nat_of_digits (pad w n) = n"
  using length_digits [OF assms] digits_all_digit [of n]
  by (simp_all add: pad_def nat_of_digits_zeros nat_of_digits_digits zeros_all_digit)

lemma field_here:
  "n < 10 ^ w \<Longrightarrow> 0 < w \<Longrightarrow> field (pad w n @ rest) 0 w = Some n"
  by (simp add: field_def pad_props)

lemma field_skip:
  "length pre \<le> pos \<Longrightarrow> field (pre @ rest) pos w = field rest (pos - length pre) w"
  by (simp add: field_def)

lemma field_skip_Cons:
  "0 < pos \<Longrightarrow> field (c # rest) pos w = field rest (pos - 1) w"
  by (cases pos) (simp_all add: field_def)

lemma pad_hd_digit: "n < 10 ^ w \<Longrightarrow> 0 < w \<Longrightarrow> is_digit ((pad w n @ rest) ! 0)"
  using pad_props [of n w]
  by (cases "pad w n") (auto)

lemma parse_rest_iso:
  assumes "valid_Date (DateTime y mo d h mi s ms)"
  shows "parse_rest y (''-'' @ pad 2 mo @ ''-'' @ pad 2 d @ ''T'' @ pad 2 h @ '':'' @ pad 2 mi @
            '':'' @ pad 2 s @ ''.'' @ pad 3 ms @ ''Z'') = Some (DateTime y mo d h mi s ms)"
proof -
  from assms have b: "mo < 10 ^ 2" "d < 10 ^ 2" "h < 10 ^ 2" "mi < 10 ^ 2" "s < 10 ^ 2" "ms < 10 ^ 3"
    by (auto simp: daysInMonth_def split: if_splits)
  note p = pad_props [OF b(1)] pad_props [OF b(2)] pad_props [OF b(3)] pad_props [OF b(4)]
    pad_props [OF b(5)] pad_props [OF b(6)]
  have f: "field (''-'' @ pad 2 mo @ ''-'' @ pad 2 d @ ''T'' @ pad 2 h @ '':'' @ pad 2 mi @
            '':'' @ pad 2 s @ ''.'' @ pad 3 ms @ ''Z'') 1 2 = Some mo"
    "field (''-'' @ pad 2 mo @ ''-'' @ pad 2 d @ ''T'' @ pad 2 h @ '':'' @ pad 2 mi @
            '':'' @ pad 2 s @ ''.'' @ pad 3 ms @ ''Z'') 4 2 = Some d"
    "field (''-'' @ pad 2 mo @ ''-'' @ pad 2 d @ ''T'' @ pad 2 h @ '':'' @ pad 2 mi @
            '':'' @ pad 2 s @ ''.'' @ pad 3 ms @ ''Z'') 7 2 = Some h"
    "field (''-'' @ pad 2 mo @ ''-'' @ pad 2 d @ ''T'' @ pad 2 h @ '':'' @ pad 2 mi @
            '':'' @ pad 2 s @ ''.'' @ pad 3 ms @ ''Z'') 10 2 = Some mi"
    "field (''-'' @ pad 2 mo @ ''-'' @ pad 2 d @ ''T'' @ pad 2 h @ '':'' @ pad 2 mi @
            '':'' @ pad 2 s @ ''.'' @ pad 3 ms @ ''Z'') 13 2 = Some s"
    "field (''-'' @ pad 2 mo @ ''-'' @ pad 2 d @ ''T'' @ pad 2 h @ '':'' @ pad 2 mi @
            '':'' @ pad 2 s @ ''.'' @ pad 3 ms @ ''Z'') 16 3 = Some ms"
    using b by (simp_all add: field_skip field_skip_Cons field_here p)
  have n: "length (''-'' @ pad 2 mo @ ''-'' @ pad 2 d @ ''T'' @ pad 2 h @ '':'' @ pad 2 mi @
            '':'' @ pad 2 s @ ''.'' @ pad 3 ms @ ''Z'') = 20"
    by (simp add: p)
  have c: "(''-'' @ pad 2 mo @ ''-'' @ pad 2 d @ ''T'' @ pad 2 h @ '':'' @ pad 2 mi @
            '':'' @ pad 2 s @ ''.'' @ pad 3 ms @ ''Z'') ! 0 = CHR ''-''"
     "(''-'' @ pad 2 mo @ ''-'' @ pad 2 d @ ''T'' @ pad 2 h @ '':'' @ pad 2 mi @
            '':'' @ pad 2 s @ ''.'' @ pad 3 ms @ ''Z'') ! 3 = CHR ''-''"
     "(''-'' @ pad 2 mo @ ''-'' @ pad 2 d @ ''T'' @ pad 2 h @ '':'' @ pad 2 mi @
            '':'' @ pad 2 s @ ''.'' @ pad 3 ms @ ''Z'') ! 6 = CHR ''T''"
     "(''-'' @ pad 2 mo @ ''-'' @ pad 2 d @ ''T'' @ pad 2 h @ '':'' @ pad 2 mi @
            '':'' @ pad 2 s @ ''.'' @ pad 3 ms @ ''Z'') ! 9 = CHR '':''"
     "(''-'' @ pad 2 mo @ ''-'' @ pad 2 d @ ''T'' @ pad 2 h @ '':'' @ pad 2 mi @
            '':'' @ pad 2 s @ ''.'' @ pad 3 ms @ ''Z'') ! 12 = CHR '':''"
     "(''-'' @ pad 2 mo @ ''-'' @ pad 2 d @ ''T'' @ pad 2 h @ '':'' @ pad 2 mi @
            '':'' @ pad 2 s @ ''.'' @ pad 3 ms @ ''Z'') ! 15 = CHR ''.''"
     "(''-'' @ pad 2 mo @ ''-'' @ pad 2 d @ ''T'' @ pad 2 h @ '':'' @ pad 2 mi @
            '':'' @ pad 2 s @ ''.'' @ pad 3 ms @ ''Z'') ! 19 = CHR ''Z''"
    by (simp_all add: nth_append nth_Cons' p)
  show ?thesis
    unfolding parse_rest_def f n c using assms by simp
qed

lemma Date_parse_toISOString:
  assumes "valid_Date d" "toISOString d = Inr s"
  shows "Date_parse s = Some d"
proof (cases d)
  case InvalidDate
  with assms show ?thesis by simp
next
  case (DateTime y mo dd h mi sec ms)
  let ?rest = "''-'' @ pad 2 mo @ ''-'' @ pad 2 dd @ ''T'' @ pad 2 h @ '':'' @ pad 2 mi @
            '':'' @ pad 2 sec @ ''.'' @ pad 3 ms @ ''Z''"
  from assms(1) DateTime have yr: "- 271821 \<le> y" "y \<le> 275760" by auto
  have rest: "parse_rest y ?rest = Some d"
    using parse_rest_iso assms(1) unfolding DateTime by blast
  show ?thesis
  proof (cases "0 \<le> y \<and> y \<le> 9999")
    case True
    then have b: "nat y < 10 ^ 4" by auto
    have s: "s = pad 4 (nat y) @ ?rest"
      using assms(2) True DateTime by simp
    have "s \<noteq> ''''" "is_digit (s ! 0)"
      using pad_hd_digit [OF b, of ?rest] by (simp_all add: s)
    moreover have "field s 0 4 = Some (nat y)" "drop 4 s = ?rest"
      using pad_props [OF b] field_here [OF b, of ?rest] by (simp_all add: s)
    ultimately show ?thesis
      using rest True by (simp add: Date_parse_def)
  next
    case False
    define a where "a = nat \<bar>y\<bar>"
    from False yr have b: "a < 10 ^ 6" "a \<noteq> 0" by (auto simp: a_def)
    have ya: "y < 0 \<Longrightarrow> - int a = y" "\<not> y < 0 \<Longrightarrow> int a = y"
      by (auto simp: a_def)
    have s: "s = (if y < 0 then ''-'' else ''+'') @ pad 6 a @ ?rest"
      using assms(2) False DateTime by (simp add: a_def)
    have f: "field s 1 6 = Some a" "drop 7 s = ?rest"
      using pad_props [OF b(1)] field_here [OF b(1), of ?rest] by (simp_all add: s field_skip_Cons)
    have nd: "\<not> is_digit CHR ''-''" "\<not> is_digit CHR ''+''"
      by (simp_all add: is_digit_def)
    show ?thesis
    proof (cases "y < 0")
      case True
      then have "s \<noteq> ''''" "s ! 0 = CHR ''-''" by (simp_all add: s)
      then show ?thesis
        using f b rest ya(1) [OF True] nd by (simp add: Date_parse_def)
    next
      case False
      then have "s \<noteq> ''''" "s ! 0 = CHR ''+''" by (simp_all add: s)
      then show ?thesis
        using f b rest ya(2) [OF False] nd by (simp add: Date_parse_def)
    qed
  qed
qed

section \<open>Saving and loading the messages\<close>

lemma revive_message_json:
  assumes "valid_Date (timestamp m)"
  shows "revive (message_json m) = Some m"
proof (cases "timestamp m")
  case InvalidDate
  with assms show ?thesis by simp
next
  case (DateTime y mo d h mi s ms)
  then obtain str where str: "toISOString (timestamp m) = Inr str"
    by simp
  with assms have "Date_parse str = Some (timestamp m)"
    by (rule Date_parse_toISOString)
  with str DateTime show ?thesis
    by (simp add: revive_def message_json_def toJSON_def new_Date_def)
qed

lemma those_revive_message_json:
  "\<forall>m\<in>set ms. valid_Date (timestamp m) \<Longrightarrow> those (map revive (map message_json ms)) = Some ms"
  by (induction ms) (simp_all add: revive_message_json)

lemma message_json_not_null: "JNull \<notin> set (map message_json ms)"
  by (auto simp: message_json_def)

text \<open>
  C3, as the code has it. \<^verbatim>\<open>saveMessagesToStorage\<close> catches the error of a storage
  that refuses the write, and \<^verbatim>\<open>loadMessagesFromStorage\<close> the error of one that
  refuses the read; both then go on. So the round trip holds where the storage takes the
  write and the read: for every list of messages with valid timestamps, saving and then
  loading returns the list itself, each timestamp read back by \<^verbatim>\<open>new Date\<close> from the
  ISO string \<^verbatim>\<open>JSON.stringify\<close> wrote for it.
\<close>

theorem storage_round_trip:
  assumes "\<not> denied st" and "\<not> full st"
    and "\<forall>m\<in>set ms. valid_Date (timestamp m)"
  shows "loadMessagesFromStorage (saveMessagesToStorage ms st) now = Some ms"
proof -
  let ?text = "JSON_stringify (JArray (map message_json ms))"
  from assms(1,2) have saved:
    "saveMessagesToStorage ms st = st\<lparr>items := (items st)(AI_CHAT_STORAGE_KEY \<mapsto> ?text)\<rparr>"
    by (simp add: saveMessagesToStorage_def setItem_def)
  from assms(1) have read:
    "getItem (saveMessagesToStorage ms st) AI_CHAT_STORAGE_KEY = Inr (Some ?text)"
    by (simp add: saved getItem_def)
  have parsed: "JSON_parse ?text = Inr (JArray (map message_json ms))"
    by (simp add: JSON_parse_def JSON_stringify_def)
  show ?thesis
    unfolding loadMessagesFromStorage_def read
    using parsed those_revive_message_json [OF assms(3)] message_json_not_null [of ms]
    by (simp add: JSON_stringify_def)
qed

theorem storage_round_trip_witness:
  "\<not> denied \<lparr>items = Map.empty, denied = False, full = False\<rparr> \<and>
   \<not> full \<lparr>items = Map.empty, denied = False, full = False\<rparr> \<and>
   valid_Date (DateTime 2024 2 29 23 59 59 999) \<and>
   valid_Date (DateTime (- 43) 3 15 12 0 0 0) \<and>
   loadMessagesFromStorage
     (saveMessagesToStorage
        [\<lparr>id_msg = ''1'', text = ''Hello!'', isUser = False, timestamp = DateTime 2024 2 29 23 59 59 999\<rparr>,
         \<lparr>id_msg = ''1709251200000'', text = ''Et tu?'', isUser = True,
          timestamp = DateTime (- 43) 3 15 12 0 0 0\<rparr>]
        \<lparr>items = Map.empty, denied = False, full = False\<rparr>)
     (DateTime 2024 3 1 0 0 0 0) =
   Some [\<lparr>id_msg = ''1'', text = ''Hello!'', isUser = False, timestamp = DateTime 2024 2 29 23 59 59 999\<rparr>,
         \<lparr>id_msg = ''1709251200000'', text = ''Et tu?'', isUser = True,
          timestamp = DateTime (- 43) 3 15 12 0 0 0\<rparr>]"
proof -
  have v: "valid_Date (DateTime 2024 2 29 23 59 59 999)" "valid_Date (DateTime (- 43) 3 15 12 0 0 0)"
    by (simp_all add: daysInMonth_def isLeapYear_def)
  show ?thesis
    using v storage_round_trip
      [of "\<lparr>items = Map.empty, denied = False, full = False\<rparr>"
          "[\<lparr>id_msg = ''1'', text = ''Hello!'', isUser = False, timestamp = DateTime 2024 2 29 23 59 59 999\<rparr>,
            \<lparr>id_msg = ''1709251200000'', text = ''Et tu?'', isUser = True,
             timestamp = DateTime (- 43) 3 15 12 0 0 0\<rparr>]"
          "DateTime 2024 3 1 0 0 0 0"]
    by simp
qed

text \<open>
  The claim as it is written, for every list and so in every storage, fails in a storage
  that is full: the message is not written, and what comes back is the welcome message.
\<close>

theorem storage_round_trip_counterexample:
  "valid_Date (DateTime 2024 5 1 9 30 0 0) \<and>
   loadMessagesFromStorage
     (saveMessagesToStorage
        [\<lparr>id_msg = ''1714555800000'', text = ''Hi'', isUser = True, timestamp = DateTime 2024 5 1 9 30 0 0\<rparr>]
        \<lparr>items = Map.empty, denied = False, full = True\<rparr>)
     (DateTime 2024 5 1 9 31 0 0) =
   Some [welcomeMessage (DateTime 2024 5 1 9 31 0 0)] \<and>
   welcomeMessage (DateTime 2024 5 1 9 31 0 0) \<noteq>
     \<lparr>id_msg = ''1714555800000'', text = ''Hi'', isUser = True, timestamp = DateTime 2024 5 1 9 30 0 0\<rparr>"
  by (simp add: daysInMonth_def loadMessagesFromStorage_def saveMessagesToStorage_def setItem_def
      getItem_def welcomeMessage_def)

text \<open>
  C10. \<^verbatim>\<open>loadMessagesFromStorage\<close> has no error to return: what throws under its
  \<^verbatim>\<open>try\<close> is caught. When nothing is stored under the key, when reading the item
  throws, and when \<^verbatim>\<open>JSON.parse\<close> throws on what is stored, it returns the list of
  exactly one message, the welcome message, whose id is \<^verbatim>\<open>'1'\<close> and which is not the
  user's.
\<close>

theorem loadMessagesFromStorage_welcome:
  assumes "getItem st AI_CHAT_STORAGE_KEY = Inl e \<or>
           getItem st AI_CHAT_STORAGE_KEY = Inr None \<or>
           (\<exists>stored e'. getItem st AI_CHAT_STORAGE_KEY = Inr (Some stored) \<and> JSON_parse stored = Inl e')"
  shows "\<exists>m. loadMessagesFromStorage st now = Some [m] \<and> m = welcomeMessage now \<and>
             id_msg m = ''1'' \<and> \<not> isUser m \<and> timestamp m = now"
proof -
  have id: "id_msg (welcomeMessage now) = ''1''" "\<not> isUser (welcomeMessage now)"
    "timestamp (welcomeMessage now) = now"
    by (simp_all add: welcomeMessage_def)
  from assms consider
      (throws) "getItem st AI_CHAT_STORAGE_KEY = Inl e"
    | (missing) "getItem st AI_CHAT_STORAGE_KEY = Inr None"
    | (unparsed) stored e' where "getItem st AI_CHAT_STORAGE_KEY = Inr (Some stored)"
        "JSON_parse stored = Inl e'"
    by blast
  then have "loadMessagesFromStorage st now = Some [welcomeMessage now]"
  proof cases
    case throws
    then show ?thesis by (simp add: loadMessagesFromStorage_def)
  next
    case missing
    then show ?thesis by (simp add: loadMessagesFromStorage_def)
  next
    case unparsed
    then show ?thesis by (cases stored) (simp_all add: loadMessagesFromStorage_def)
  qed
  with id show ?thesis by simp
qed

theorem loadMessagesFromStorage_welcome_witness:
  "getItem \<lparr>items = Map.empty, denied = True, full = False\<rparr> AI_CHAT_STORAGE_KEY =
     Inl (Error ''The operation is insecure.'') \<and>
   loadMessagesFromStorage \<lparr>items = Map.empty, denied = True, full = False\<rparr> (DateTime 2024 5 1 9 30 0 0) =
     Some [welcomeMessage (DateTime 2024 5 1 9 30 0 0)] \<and>
   getItem \<lparr>items = Map.empty, denied = False, full = False\<rparr> AI_CHAT_STORAGE_KEY = Inr None \<and>
   loadMessagesFromStorage \<lparr>items = Map.empty, denied = False, full = False\<rparr> (DateTime 2024 5 1 9 30 0 0) =
     Some [welcomeMessage (DateTime 2024 5 1 9 30 0 0)] \<and>
   getItem \<lparr>items = [AI_CHAT_STORAGE_KEY \<mapsto> OtherText], denied = False, full = False\<rparr> AI_CHAT_STORAGE_KEY =
     Inr (Some OtherText) \<and>
   JSON_parse OtherText = Inl (Error ''Unexpected token in JSON'') \<and>
   loadMessagesFromStorage \<lparr>items = [AI_CHAT_STORAGE_KEY \<mapsto> OtherText], denied = False, full = False\<rparr>
       (DateTime 2024 5 1 9 30 0 0) =
     Some [welcomeMessage (DateTime 2024 5 1 9 30 0 0)]"
proof -
  have a: "getItem \<lparr>items = Map.empty, denied = True, full = False\<rparr> AI_CHAT_STORAGE_KEY =
     Inl (Error ''The operation is insecure.'')"
    by (simp add: getItem_def)
  have b: "getItem \<lparr>items = Map.empty, denied = False, full = False\<rparr> AI_CHAT_STORAGE_KEY = Inr None"
    by (simp add: getItem_def)
  have c: "getItem \<lparr>items = [AI_CHAT_STORAGE_KEY \<mapsto> OtherText], denied = False, full = False\<rparr>
      AI_CHAT_STORAGE_KEY = Inr (Some OtherText)"
    "JSON_parse OtherText = Inl (Error ''Unexpected token in JSON'')"
    by (simp_all add: getItem_def JSON_parse_def)
  from a b c
    loadMessagesFromStorage_welcome
      [where st = "\<lparr>items = Map.empty, denied = True, full = False\<rparr>"
         and e = "Error ''The operation is insecure.''" and now = "DateTime 2024 5 1 9 30 0 0"]
    loadMessagesFromStorage_welcome
      [where st = "\<lparr>items = Map.empty, denied = False, full = False\<rparr>"
         and now = "DateTime 2024 5 1 9 30 0 0"]
    loadMessagesFromStorage_welcome
      [where st = "\<lparr>items = [AI_CHAT_STORAGE_KEY \<mapsto> OtherText], denied = False, full = False\<rparr>"
         and now = "DateTime 2024 5 1 9 30 0 0"]
  show ?thesis by auto
qed


section \<open>The handlers, one by one\<close>

lemma save_effect_fields [simp]:
  "messages (save_effect s) = messages s"
  "inputValue (save_effect s) = inputValue s"
  "isLoading (save_effect s) = isLoading s"
  "pending (save_effect s) = pending s"
  by (simp_all add: save_effect_def)

lemma onChange_fields [simp]:
  "messages (onChange v s) = messages s"
  "isLoading (onChange v s) = isLoading s"
  "pending (onChange v s) = pending s"
  by (simp_all add: onChange_def)

lemma handleClearChat_fields [simp]:
  "messages (handleClearChat s) = []"
  "isLoading (handleClearChat s) = isLoading s"
  "pending (handleClearChat s) = pending s"
  by (simp_all add: handleClearChat_def)

lemma handleSendMessage_blocked:
  "isLoading s \<or> trim (inputValue s) = '''' \<Longrightarrow> handleSendMessage env t d s = s"
  by (auto simp: handleSendMessage_def)

lemma handleSendMessage_sends:
  assumes "\<not> isLoading s" "trim (inputValue s) \<noteq> ''''"
  shows "messages (handleSendMessage env t d s) =
           messages s @ [\<lparr>id_msg = toString t, text = trim (inputValue s), isUser = True, timestamp = d\<rparr>]"
    and "isLoading (handleSendMessage env t d s)"
    and "inputValue (handleSendMessage env t d s) = ''''"
    and "pending (handleSendMessage env t d s) =
           pending s @ [getAIResponse env (messages s @
             [\<lparr>id_msg = toString t, text = trim (inputValue s), isUser = True, timestamp = d\<rparr>])]"
  using assms by (simp_all add: handleSendMessage_def Let_def)

lemma handleSendMessage_resumed_idle:
  "pending s = [] \<Longrightarrow> handleSendMessage_resumed i res t d s = s"
  by (simp add: handleSendMessage_resumed_def)

lemma handleSendMessage_resumed_Return:
  assumes "pending s = [p]" "resume p res = Return answer"
  shows "messages (handleSendMessage_resumed 0 res t d s) =
           messages s @ [\<lparr>id_msg = toString (t + 1), text = answer, isUser = False, timestamp = d\<rparr>]"
    and "\<not> isLoading (handleSendMessage_resumed 0 res t d s)"
    and "pending (handleSendMessage_resumed 0 res t d s) = []"
  using assms by (simp_all add: handleSendMessage_resumed_def)

lemma handleSendMessage_resumed_beyond:
  "pending s = [p] \<Longrightarrow> 0 < i \<Longrightarrow> handleSendMessage_resumed i res t d s = s"
  by (simp add: handleSendMessage_resumed_def)

lemma one_send_mount: "mount st now = Some s \<Longrightarrow> one_send env s"
  by (auto simp: mount_def one_send_def split: option.splits)

lemma one_send_step:
  assumes "one_send env s"
  shows "one_send env (step env s ev)"
proof (cases ev)
  case (Change v)
  with assms show ?thesis by (simp add: one_send_def)
next
  case (Submit t d)
  show ?thesis
  proof (cases "isLoading s \<or> trim (inputValue s) = ''''")
    case True
    with assms Submit show ?thesis by (simp add: handleSendMessage_blocked)
  next
    case False
    with assms have "pending s = []" by (auto simp: one_send_def)
    with False Submit show ?thesis
      by (auto simp: one_send_def handleSendMessage_sends)
  qed
next
  case (Settled i res t d)
  from assms consider (idle) "pending s = []"
    | (busy) ms where "pending s = [getAIResponse env ms]"
    by (auto simp: one_send_def)
  then show ?thesis
  proof cases
    case idle
    with assms Settled show ?thesis by (simp add: handleSendMessage_resumed_idle)
  next
    case busy
    obtain answer where "resume (getAIResponse env ms) res = Return answer"
      using resume_getAIResponse by blast
    with busy assms Settled show ?thesis
      by (cases i) (simp_all add: one_send_def handleSendMessage_resumed_Return
          handleSendMessage_resumed_beyond)
  qed
next
  case ClearChat
  with assms show ?thesis by (simp add: one_send_def)
qed

lemma run_Nil [simp]: "run env s [] = s"
  by (simp add: run_def)

lemma run_Cons [simp]: "run env s (ev # evs) = run env (step env s ev) evs"
  by (simp add: run_def)

lemma run_snoc: "run env s (evs @ [ev]) = step env (run env s evs) ev"
  by (simp add: run_def)

lemma one_send_run: "one_send env s \<Longrightarrow> one_send env (run env s evs)"
  by (induction evs arbitrary: s) (simp_all add: one_send_step)

lemma in_flight_one_send: "one_send env s \<Longrightarrow> length (in_flight s) \<le> 1"
  by (auto simp: one_send_def in_flight_def split: async.split)


section \<open>One request at a time\<close>

text \<open>
  C8. In every state the page reaches from its mount, at most one call is suspended and
  at most one provider request is in flight, and \<^verbatim>\<open>isLoading\<close> is true exactly while a
  call is suspended. While \<^verbatim>\<open>isLoading\<close> is true \<^verbatim>\<open>handleSendMessage\<close> (the button and
  the Enter key both call it) leaves the state as it is, so it starts no request. When
  the request of the suspended call settles, whatever it settles to, \<^verbatim>\<open>isLoading\<close> is
  false again and nothing is in flight.
\<close>

theorem single_request_in_flight:
  assumes "mount st now = Some s0"
  shows "length (in_flight (run env s0 evs)) \<le> 1 \<and>
         length (pending (run env s0 evs)) \<le> 1 \<and>
         (isLoading (run env s0 evs) \<longleftrightarrow> pending (run env s0 evs) \<noteq> []) \<and>
         (isLoading (run env s0 evs) \<longrightarrow>
            handleSendMessage env t d (run env s0 evs) = run env s0 evs) \<and>
         (isLoading (run env s0 evs) \<longrightarrow>
            \<not> isLoading (handleSendMessage_resumed 0 res t d (run env s0 evs)) \<and>
            pending (handleSendMessage_resumed 0 res t d (run env s0 evs)) = [] \<and>
            in_flight (handleSendMessage_resumed 0 res t d (run env s0 evs)) = [])"
proof -
  let ?s = "run env s0 evs"
  have inv: "one_send env ?s"
    using assms by (simp add: one_send_mount one_send_run)
  have a: "length (in_flight ?s) \<le> 1"
    using inv by (rule in_flight_one_send)
  have b: "length (pending ?s) \<le> 1" "isLoading ?s \<longleftrightarrow> pending ?s \<noteq> []"
    using inv by (auto simp: one_send_def)
  have c: "handleSendMessage env t d ?s = ?s" if "isLoading ?s"
    using that by (simp add: handleSendMessage_blocked)
  have d: "\<not> isLoading (handleSendMessage_resumed 0 res t d ?s) \<and>
      pending (handleSendMessage_resumed 0 res t d ?s) = [] \<and>
      in_flight (handleSendMessage_resumed 0 res t d ?s) = []" if "isLoading ?s"
  proof -
    from that inv obtain ms where p: "pending ?s = [getAIResponse env ms]"
      by (auto simp: one_send_def)
    obtain answer where "resume (getAIResponse env ms) res = Return answer"
      using resume_getAIResponse by blast
    with p show ?thesis
      by (simp add: handleSendMessage_resumed_Return in_flight_def)
  qed
  from a b c d show ?thesis by blast
qed

theorem single_request_in_flight_witness:
  "mount \<lparr>items = Map.empty, denied = False, full = False\<rparr> (DateTime 2024 5 1 9 30 0 0) =
     Some (save_effect \<lparr>messages = [welcomeMessage (DateTime 2024 5 1 9 30 0 0)], inputValue = '''',
             isLoading = False, pending = [],
             sessionStorage = \<lparr>items = Map.empty, denied = False, full = False\<rparr>\<rparr>) \<and>
   isLoading
     (run \<lparr>VITE_GEMINI_API_KEY = None, VITE_GROQ_API_KEY = Some ''q-key'', VITE_OPENAI_API_KEY = None\<rparr>
        (save_effect \<lparr>messages = [welcomeMessage (DateTime 2024 5 1 9 30 0 0)], inputValue = '''',
             isLoading = False, pending = [],
             sessionStorage = \<lparr>items = Map.empty, denied = False, full = False\<rparr>\<rparr>)
        [Change ''hi'', Submit 1714555800000 (DateTime 2024 5 1 9 30 0 0)]) \<and>
   handleSendMessage
     \<lparr>VITE_GEMINI_API_KEY = None, VITE_GROQ_API_KEY = Some ''q-key'', VITE_OPENAI_API_KEY = None\<rparr>
     1714555800400 (DateTime 2024 5 1 9 30 0 400)
     (run \<lparr>VITE_GEMINI_API_KEY = None, VITE_GROQ_API_KEY = Some ''q-key'', VITE_OPENAI_API_KEY = None\<rparr>
        (save_effect \<lparr>messages = [welcomeMessage (DateTime 2024 5 1 9 30 0 0)], inputValue = '''',
             isLoading = False, pending = [],
             sessionStorage = \<lparr>items = Map.empty, denied = False, full = False\<rparr>\<rparr>)
        [Change ''hi'', Submit 1714555800000 (DateTime 2024 5 1 9 30 0 0)]) =
   run \<lparr>VITE_GEMINI_API_KEY = None, VITE_GROQ_API_KEY = Some ''q-key'', VITE_OPENAI_API_KEY = None\<rparr>
        (save_effect \<lparr>messages = [welcomeMessage (DateTime 2024 5 1 9 30 0 0)], inputValue = '''',
             isLoading = False, pending = [],
             sessionStorage = \<lparr>items = Map.empty, denied = False, full = False\<rparr>\<rparr>)
        [Change ''hi'', Submit 1714555800000 (DateTime 2024 5 1 9 30 0 0)] \<and>
   \<not> isLoading
     (handleSendMessage_resumed 0 (Rejected (Error ''Failed to fetch'')) 1714555800400
        (DateTime 2024 5 1 9 30 0 400)
        (run \<lparr>VITE_GEMINI_API_KEY = None, VITE_GROQ_API_KEY = Some ''q-key'', VITE_OPENAI_API_KEY = None\<rparr>
          (save_effect \<lparr>messages = [welcomeMessage (DateTime 2024 5 1 9 30 0 0)], inputValue = '''',
             isLoading = False, pending = [],
             sessionStorage = \<lparr>items = Map.empty, denied = False, full = False\<rparr>\<rparr>)
          [Change ''hi'', Submit 1714555800000 (DateTime 2024 5 1 9 30 0 0)]))"
proof -
  let ?st = "\<lparr>items = Map.empty, denied = False, full = False\<rparr>"
  let ?env = "\<lparr>VITE_GEMINI_API_KEY = None, VITE_GROQ_API_KEY = Some ''q-key'', VITE_OPENAI_API_KEY = None\<rparr>"
  let ?s0 = "save_effect \<lparr>messages = [welcomeMessage (DateTime 2024 5 1 9 30 0 0)], inputValue = '''',
             isLoading = False, pending = [], sessionStorage = ?st\<rparr>"
  let ?evs = "[Change ''hi'', Submit 1714555800000 (DateTime 2024 5 1 9 30 0 0)]"
  have m: "mount ?st (DateTime 2024 5 1 9 30 0 0) = Some ?s0"
    by (simp add: mount_def loadMessagesFromStorage_def getItem_def)
  have t: "trim ''hi'' = ''hi''"
    by (simp add: trim_def is_white_def)
  have l: "isLoading (run ?env ?s0 ?evs)"
    by (simp add: onChange_def handleSendMessage_def t Let_def)
  from m l
    single_request_in_flight [OF m, of ?env ?evs 1714555800400 "DateTime 2024 5 1 9 30 0 400"
      "Rejected (Error ''Failed to fetch'')"]
  show ?thesis by blast
qed

section \<open>How the message list changes\<close>

text \<open>
  C7, as the code has it. Typing, sending and the settling of a request keep the
  messages that are there, with their contents and in their order, and append at most
  one message at the end; no handler edits, reorders or removes a single message. The
  one update that does not keep the list is \<^verbatim>\<open>handleClearChat\<close>, which empties it.
\<close>

theorem messages_appended_or_cleared:
  "(\<exists>new. messages (step env s ev) = messages s @ new \<and> length new \<le> 1) \<or>
   (ev = ClearChat \<and> messages (step env s ev) = [])"
proof (cases ev)
  case (Change v)
  then show ?thesis by simp
next
  case (Submit t d)
  then show ?thesis
    by (cases "isLoading s \<or> trim (inputValue s) = ''''")
       (auto simp: handleSendMessage_blocked handleSendMessage_sends)
next
  case (Settled i res t d)
  then show ?thesis
    by (auto simp: handleSendMessage_resumed_def split: async.split)
next
  case ClearChat
  then show ?thesis by simp
qed

theorem messages_appended_or_cleared_witness:
  "(\<exists>new. messages
      (step \<lparr>VITE_GEMINI_API_KEY = None, VITE_GROQ_API_KEY = Some ''q-key'', VITE_OPENAI_API_KEY = None\<rparr>
         \<lparr>messages = [welcomeMessage (DateTime 2024 5 1 9 30 0 0)], inputValue = ''hi'',
          isLoading = False, pending = [],
          sessionStorage = \<lparr>items = Map.empty, denied = False, full = False\<rparr>\<rparr>
         (Submit 1714555800000 (DateTime 2024 5 1 9 30 0 0))) =
      [welcomeMessage (DateTime 2024 5 1 9 30 0 0)] @ new \<and> length new \<le> 1) \<and>
   messages
      (step \<lparr>VITE_GEMINI_API_KEY = None, VITE_GROQ_API_KEY = Some ''q-key'', VITE_OPENAI_API_KEY = None\<rparr>
         \<lparr>messages = [welcomeMessage (DateTime 2024 5 1 9 30 0 0)], inputValue = ''hi'',
          isLoading = False, pending = [],
          sessionStorage = \<lparr>items = Map.empty, denied = False, full = False\<rparr>\<rparr>
         ClearChat) = []"
  using
    messages_appended_or_cleared
      [of "\<lparr>VITE_GEMINI_API_KEY = None, VITE_GROQ_API_KEY = Some ''q-key'', VITE_OPENAI_API_KEY = None\<rparr>"
          "\<lparr>messages = [welcomeMessage (DateTime 2024 5 1 9 30 0 0)], inputValue = ''hi'',
            isLoading = False, pending = [],
            sessionStorage = \<lparr>items = Map.empty, denied = False, full = False\<rparr>\<rparr>"
          "Submit 1714555800000 (DateTime 2024 5 1 9 30 0 0)"]
  by simp

text \<open>
  The claim as it is written, for every update, fails on \<^verbatim>\<open>handleClearChat\<close>: from the
  freshly mounted page, which shows the welcome message, it leaves no message.
\<close>

theorem messages_append_only_counterexample:
  "mount \<lparr>items = Map.empty, denied = False, full = False\<rparr> (DateTime 2024 5 1 9 30 0 0) =
     Some (save_effect \<lparr>messages = [welcomeMessage (DateTime 2024 5 1 9 30 0 0)], inputValue = '''',
             isLoading = False, pending = [],
             sessionStorage = \<lparr>items = Map.empty, denied = False, full = False\<rparr>\<rparr>) \<and>
   messages (save_effect \<lparr>messages = [welcomeMessage (DateTime 2024 5 1 9 30 0 0)], inputValue = '''',
             isLoading = False, pending = [],
             sessionStorage = \<lparr>items = Map.empty, denied = False, full = False\<rparr>\<rparr>) =
     [welcomeMessage (DateTime 2024 5 1 9 30 0 0)] \<and>
   messages
     (step \<lparr>VITE_GEMINI_API_KEY = None, VITE_GROQ_API_KEY = Some ''q-key'', VITE_OPENAI_API_KEY = None\<rparr>
        (save_effect \<lparr>messages = [welcomeMessage (DateTime 2024 5 1 9 30 0 0)], inputValue = '''',
             isLoading = False, pending = [],
             sessionStorage = \<lparr>items = Map.empty, denied = False, full = False\<rparr>\<rparr>)
        ClearChat) = [] \<and>
   \<not> prefix [welcomeMessage (DateTime 2024 5 1 9 30 0 0)] []"
  by (simp add: mount_def loadMessagesFromStorage_def getItem_def)

section \<open>A send whose provider call fails\<close>
























section \<open>The ids of the messages\<close>

lemma digits_hd_digit: "is_digit (hd (digits n))"
proof -
  obtain c cs where d: "digits n = c # cs"
    using digits_nonempty [of n] by (cases "digits n") blast+
  from digits_all_digit [of n] have "list_all is_digit (c # cs)"
    unfolding d .
  then have "is_digit c" by simp
  then show ?thesis unfolding d by simp
qed

lemma digits_inj: "digits a = digits b \<Longrightarrow> a = b"
  by (metis nat_of_digits_digits)

lemma minus_not_digits: "CHR ''-'' # digits m \<noteq> digits n"
proof
  assume "CHR ''-'' # digits m = digits n"
  then have "hd (digits n) = CHR ''-''"
    by (metis list.sel(1))
  with digits_hd_digit [of n] have "is_digit CHR ''-''" by simp
  then show False by (simp add: is_digit_def)
qed

lemma toString_inj: "toString a = toString b \<Longrightarrow> a = b"
proof -
  assume eq: "toString a = toString b"
  show ?thesis
  proof (cases "a < 0"; cases "b < 0")
    assume "a < 0" "b < 0"
    with eq have "nat (- a) = nat (- b)" by (simp add: toString_def digits_inj)
    with \<open>a < 0\<close> \<open>b < 0\<close> show ?thesis by simp
  next
    assume "a < 0" "\<not> b < 0"
    with eq minus_not_digits [of "nat (- a)" "nat b"] show ?thesis by (simp add: toString_def)
  next
    assume "\<not> a < 0" "b < 0"
    with eq minus_not_digits [of "nat (- b)" "nat a"] show ?thesis by (simp add: toString_def)
  next
    assume "\<not> a < 0" "\<not> b < 0"
    with eq have "nat a = nat b" by (simp add: toString_def digits_inj)
    with \<open>\<not> a < 0\<close> \<open>\<not> b < 0\<close> show ?thesis by simp
  qed
qed

text \<open>
  What the \<^verbatim>\<open>+ 1\<close> of \<^verbatim>\<open>(Date.now() + 1).toString()\<close> does: the id of a response differs
  from the id of the message it answers, also when both are made within the same
  millisecond.
\<close>

lemma response_id_differs_from_its_send:
  assumes "t \<le> t'"
  shows "toString (t' + 1) \<noteq> toString t"
  using assms toString_inj [of "t' + 1" t] by auto

text \<open>
  C6. The ids of a list the page has reached are not always pairwise distinct. The id
  of a new message is the clock's reading, and for a response the reading plus one;
  that keeps a response apart from the message it answers and from nothing else. Here
  the page is mounted on an empty storage, the user sends \<^verbatim>\<open>hi\<close> at 1714555800000, the
  request is rejected at 1714555800700, so that the response takes the id 1714555800701,
  and the user sends \<^verbatim>\<open>more\<close> at 1714555800701: the last two messages of the list have
  the same id, which is also their \<^verbatim>\<open>key\<close> in the rendered list.
\<close>

theorem message_ids_collide:
  "let st = \<lparr>items = Map.empty, denied = False, full = False\<rparr>;
       env = \<lparr>VITE_GEMINI_API_KEY = None, VITE_GROQ_API_KEY = Some ''q-key'', VITE_OPENAI_API_KEY = None\<rparr>;
       d = DateTime 2024 5 1 9 30 0 0;
       s0 = save_effect \<lparr>messages = [welcomeMessage d], inputValue = '''', isLoading = False,
                          pending = [], sessionStorage = st\<rparr>;
       evs = [Change ''hi'', Submit 1714555800000 d,
              Settled 0 (Rejected (Error ''Failed to fetch'')) 1714555800700 d,
              Change ''more'', Submit 1714555800701 d]
   in mount st d = Some s0 \<and>
      map id_msg (messages (run env s0 evs)) =
        [''1'', ''1714555800000'', ''1714555800701'', ''1714555800701''] \<and>
      map isUser (messages (run env s0 evs)) = [False, True, False, True] \<and>
      \<not> distinct (map id_msg (messages (run env s0 evs)))"
proof -
  let ?st = "\<lparr>items = Map.empty, denied = False, full = False\<rparr>"
  let ?env = "\<lparr>VITE_GEMINI_API_KEY = None, VITE_GROQ_API_KEY = Some ''q-key'', VITE_OPENAI_API_KEY = None\<rparr>"
  let ?d = "DateTime 2024 5 1 9 30 0 0"
  let ?init = "save_effect \<lparr>messages = [welcomeMessage ?d], inputValue = '''', isLoading = False,
                          pending = [], sessionStorage = ?st\<rparr>"
  let ?res = "Rejected (Error ''Failed to fetch'')"
  have m: "mount ?st ?d = Some ?init"
    by (simp add: mount_def loadMessagesFromStorage_def getItem_def)
  have t: "trim ''hi'' = ''hi''" "trim ''more'' = ''more''"
    by (simp_all add: trim_def is_white_def)
  have n: "toString 1714555800000 = ''1714555800000''"
    "toString (1714555800700 + 1) = ''1714555800701''"
    "toString 1714555800701 = ''1714555800701''"
    by (simp_all add: toString_def digits.simps digit_char_def)
  let ?a = "onChange ''hi'' ?init"
  have a: "messages ?a = [welcomeMessage ?d]" "\<not> isLoading ?a" "inputValue ?a = ''hi''" "pending ?a = []"
    by (simp_all add: onChange_def)
  let ?b = "handleSendMessage ?env 1714555800000 ?d ?a"
  have b: "map id_msg (messages ?b) = [''1'', ''1714555800000'']"
    "map isUser (messages ?b) = [False, True]" "\<exists>p. pending ?b = [p]"
    using handleSendMessage_sends [of ?a ?env 1714555800000 ?d] a t n
    by (simp_all add: welcomeMessage_def)
  then obtain p where p: "pending ?b = [p]" by blast
  have "one_send ?env ?b"
    using one_send_step [OF one_send_step [OF one_send_mount [OF m, of ?env],
        where ev = "Change ''hi''"], where ev = "Submit 1714555800000 ?d"]
    by simp
  with p obtain ms where "p = getAIResponse ?env ms" by (auto simp: one_send_def)
  then obtain answer where answer: "resume p ?res = Return answer"
    using resume_getAIResponse [of ?env ms ?res] by auto
  let ?c = "handleSendMessage_resumed 0 ?res 1714555800700 ?d ?b"
  have c: "map id_msg (messages ?c) = [''1'', ''1714555800000'', ''1714555800701'']"
    "map isUser (messages ?c) = [False, True, False]"
    "\<not> isLoading ?c"
    using handleSendMessage_resumed_Return [OF p answer, of 1714555800700 ?d] b(1,2) n
    by simp_all
  let ?e = "onChange ''more'' ?c"
  have e: "map id_msg (messages ?e) = [''1'', ''1714555800000'', ''1714555800701'']"
    "map isUser (messages ?e) = [False, True, False]"
    "\<not> isLoading ?e" "inputValue ?e = ''more''"
    using c by (simp_all add: onChange_def)
  let ?f = "handleSendMessage ?env 1714555800701 ?d ?e"
  have f: "map id_msg (messages ?f) = [''1'', ''1714555800000'', ''1714555800701'', ''1714555800701'']"
    "map isUser (messages ?f) = [False, True, False, True]"
    using handleSendMessage_sends(1) [of ?e ?env 1714555800701 ?d] e t n
    by simp_all
  have run: "run ?env ?init
      [Change ''hi'', Submit 1714555800000 ?d, Settled 0 ?res 1714555800700 ?d,
       Change ''more'', Submit 1714555800701 ?d] = ?f"
    by simp
  show ?thesis
    unfolding Let_def run f by (intro conjI m) simp_all
qed


end
